theory Spec2Isabelle
  imports Complex_Main "HOL-Library.List_Lexorder" "HOL-Library.Char_ord" "HOL-Library.Multiset"
begin

section \<open>The ribozyme filter of vdsearch\<close>

text \<open>
  A shallow embedding of \<^verbatim>\<open>src/vdsearch/commands/ribozyme_filter.py\<close>: the reader of
  covariance-model cutoffs (\<^verbatim>\<open>parse_cm_file\<close>) and the classifier of Infernal hits
  (\<^verbatim>\<open>ribozyme_filter\<close>).

  Conventions of the model.
  \<^item> A Python \<^verbatim>\<open>float\<close> is the real number it denotes, so comparisons are exact and
    \<^verbatim>\<open>x ** 0.5\<close> is the real square root; rounding, infinities and NaN are outside the
    model.
  \<^item> A Python \<^verbatim>\<open>str\<close> is a \<open>string\<close>; the characters are the code points below 256.
  \<^item> A raised exception is a value \<open>Inl e\<close> of the sum type \<open>error + 'a\<close>.
  \<^item> A text file is the list of its lines, a data frame the list of its rows.
\<close>

subsection \<open>Errors\<close>

datatype error =
    KeyError string     \<comment> \<open>\<^verbatim>\<open>d[k]\<close> with \<open>k\<close> not a key of \<open>d\<close>\<close>
  | IndexError          \<comment> \<open>\<^verbatim>\<open>xs[1]\<close> on a list shorter than two\<close>
  | ValueError string   \<comment> \<open>\<^verbatim>\<open>float(s)\<close> on a string that is no number\<close>

subsection \<open>String operations of the Python library\<close>

text \<open>\<^verbatim>\<open>str.isspace\<close> on one character, for the code points below 256.\<close>

definition is_space :: "char \<Rightarrow> bool" where
  "is_space c \<longleftrightarrow>
     (let n = (of_char c :: nat)
      in (9 \<le> n \<and> n \<le> 13) \<or> (28 \<le> n \<and> n \<le> 32) \<or> n = 133 \<or> n = 160)"

text \<open>
  \<^verbatim>\<open>line.split()\<close>: the maximal runs of non-space characters, in order. The first
  argument of \<open>tokens\<close> is the run being read.
\<close>

fun tokens :: "string \<Rightarrow> string \<Rightarrow> string list" where
  "tokens cur [] = (if cur = [] then [] else [cur])"
| "tokens cur (c # cs) =
     (if is_space c then (if cur = [] then tokens [] cs else cur # tokens [] cs)
      else tokens (cur @ [c]) cs)"

definition split :: "string \<Rightarrow> string list" where
  "split line = tokens [] line"

text \<open>\<^verbatim>\<open>line.startswith(p)\<close> and \<^verbatim>\<open>p in line\<close>.\<close>

definition startswith :: "string \<Rightarrow> string \<Rightarrow> bool" where
  "startswith line p \<longleftrightarrow> take (length p) line = p"

fun contains :: "string \<Rightarrow> string \<Rightarrow> bool" where
  "contains p [] = (p = [])"
| "contains p (c # cs) = (take (length p) (c # cs) = p \<or> contains p cs)"

text \<open>\<^verbatim>\<open>line.split()[1]\<close>, which raises on a line of fewer than two tokens.\<close>

definition second_token :: "string \<Rightarrow> error + string" where
  "second_token line =
     (case split line of
        _ # t # _ \<Rightarrow> Inr t
      | _ \<Rightarrow> Inl IndexError)"

subsection \<open>Cutoffs of one covariance model\<close>

text \<open>
  \<^verbatim>\<open>class CmCutoffType(str, Enum)\<close>, and the inner dictionary
  \<^verbatim>\<open>{"GA": .., "TC": .., "NC": ..}\<close>, which always has exactly these three keys:
  a record with one field for each, read by \<open>cutoff_of\<close>.
\<close>

datatype CmCutoffType = GA | NC | TC

record cm_cutoff =
  ga :: real
  tc :: real
  nc :: real

fun cutoff_of :: "cm_cutoff \<Rightarrow> CmCutoffType \<Rightarrow> real" where
  "cutoff_of c GA = ga c"
| "cutoff_of c TC = tc c"
| "cutoff_of c NC = nc c"

definition zero_cutoff :: cm_cutoff where
  "zero_cutoff = \<lparr>ga = 0, tc = 0, nc = 0\<rparr>"

text \<open>
  The table \<^verbatim>\<open>cutoffs\<close>, a \<^verbatim>\<open>Dict[str, Dict[str, float]]\<close>: an association list in
  insertion order, read with \<open>map_of\<close>. \<open>dict_set\<close> is \<^verbatim>\<open>d[k] = v\<close>: an existing key
  keeps its place, a new one goes last. The dictionary is falsy when the list is empty.
\<close>

type_synonym cutoff_table = "(string \<times> cm_cutoff) list"

fun dict_set :: "string \<Rightarrow> 'v \<Rightarrow> (string \<times> 'v) list \<Rightarrow> (string \<times> 'v) list" where
  "dict_set k v [] = [(k, v)]"
| "dict_set k v (p # ps) = (if fst p = k then (k, v) # ps else p # dict_set k v ps)"

subsection \<open>\<^verbatim>\<open>parse_cm_file\<close>\<close>

text \<open>The three variables of the loop: \<^verbatim>\<open>cutoffs\<close> (the field \<open>cutoffs_dict\<close>), \<^verbatim>\<open>last_name\<close>, \<^verbatim>\<open>last_cutoff\<close>.\<close>

record parse_state =
  cutoffs_dict :: cutoff_table
  last_name :: string
  last_cutoff :: cm_cutoff

definition initial_state :: parse_state where
  "initial_state = \<lparr>cutoffs_dict = [], last_name = [], last_cutoff = zero_cutoff\<rparr>"

text \<open>
  \<^verbatim>\<open>float(line.split()[1])\<close>. Python's \<^verbatim>\<open>float\<close> on strings is the parameter
  \<open>to_float\<close> (\<open>None\<close> where it raises \<^verbatim>\<open>ValueError\<close>).
\<close>

definition float_field :: "(string \<Rightarrow> real option) \<Rightarrow> string \<Rightarrow> error + real" where
  "float_field to_float line =
     (case second_token line of
        Inl e \<Rightarrow> Inl e
      | Inr t \<Rightarrow> (case to_float t of None \<Rightarrow> Inl (ValueError t) | Some v \<Rightarrow> Inr v))"

text \<open>One round of \<^verbatim>\<open>for line in f\<close>, the branches in the order of the source.\<close>

definition parse_line ::
  "(string \<Rightarrow> real option) \<Rightarrow> parse_state \<Rightarrow> string \<Rightarrow> error + parse_state" where
  "parse_line to_float st line =
     (if contains ''INFERNAL'' line then
        Inr \<lparr>cutoffs_dict = (if last_name st \<noteq> [] then dict_set (last_name st) (last_cutoff st) (cutoffs_dict st)
                         else cutoffs_dict st),
             last_name = [],
             last_cutoff = zero_cutoff\<rparr>
      else if startswith line ''NAME'' then
        (case second_token line of
           Inl e \<Rightarrow> Inl e
         | Inr t \<Rightarrow> Inr (st\<lparr>last_name := t\<rparr>))
      else if startswith line ''GA'' then
        (case float_field to_float line of
           Inl e \<Rightarrow> Inl e
         | Inr v \<Rightarrow> Inr (st\<lparr>last_cutoff := (last_cutoff st)\<lparr>ga := v\<rparr>\<rparr>))
      else if startswith line ''TC'' then
        (case float_field to_float line of
           Inl e \<Rightarrow> Inl e
         | Inr v \<Rightarrow> Inr (st\<lparr>last_cutoff := (last_cutoff st)\<lparr>tc := v\<rparr>\<rparr>))
      else if startswith line ''NC'' then
        (case float_field to_float line of
           Inl e \<Rightarrow> Inl e
         | Inr v \<Rightarrow> Inr (st\<lparr>last_cutoff := (last_cutoff st)\<lparr>nc := v\<rparr>\<rparr>))
      else Inr st)"

fun parse_lines ::
  "(string \<Rightarrow> real option) \<Rightarrow> parse_state \<Rightarrow> string list \<Rightarrow> error + parse_state" where
  "parse_lines to_float st [] = Inr st"
| "parse_lines to_float st (line # rest) =
     (case parse_line to_float st line of
        Inl e \<Rightarrow> Inl e
      | Inr st' \<Rightarrow> parse_lines to_float st' rest)"

text \<open>
  The whole function: the loop, then the store after it
  (\<^verbatim>\<open># at the end, we need to add the last one\<close>), which has no guard.
\<close>

definition parse_cm_file :: "(string \<Rightarrow> real option) \<Rightarrow> string list \<Rightarrow> error + cutoff_table" where
  "parse_cm_file to_float lines =
     (case parse_lines to_float initial_state lines of
        Inl e \<Rightarrow> Inl e
      | Inr st \<Rightarrow> Inr (dict_set (last_name st) (last_cutoff st) (cutoffs_dict st)))"

text \<open>
  An instance of \<open>to_float\<close> for evaluation: \<^verbatim>\<open>float\<close> on the plain decimal literals
  \<^verbatim>\<open>[+-]digits[.digits]\<close> that cutoff lines hold. (The strings \<^verbatim>\<open>float\<close> accepts beyond
  these, such as exponents, are not covered by this instance.)
\<close>

definition is_digit :: "char \<Rightarrow> bool" where
  "is_digit c \<longleftrightarrow> (48 \<le> (of_char c :: nat) \<and> (of_char c :: nat) \<le> 57)"

definition digits_value :: "string \<Rightarrow> nat" where
  "digits_value ds = foldl (\<lambda>a c. 10 * a + (of_char c - 48)) 0 ds"

definition unsigned_decimal :: "string \<Rightarrow> real option" where
  "unsigned_decimal s =
     (let ip = takeWhile is_digit s; rest = dropWhile is_digit s
      in if ip = [] then None
         else if rest = [] then Some (real (digits_value ip))
         else if hd rest = CHR ''.'' \<and> list_all is_digit (tl rest) then
           Some (real (digits_value ip) + real (digits_value (tl rest)) / 10 ^ length (tl rest))
         else None)"

fun decimal_float :: "string \<Rightarrow> real option" where
  "decimal_float [] = None"
| "decimal_float (c # cs) =
     (if c = CHR ''-'' then map_option uminus (unsigned_decimal cs)
      else if c = CHR ''+'' then unsigned_decimal cs
      else unsigned_decimal (c # cs))"

subsection \<open>Hits, parameters and evidence sets\<close>

text \<open>
  One row of the data frame \<^verbatim>\<open>ribozymes\<close>, with the columns named in the call of
  \<^verbatim>\<open>read_csv\<close> (\<open>from_pos\<close> and \<open>to_pos\<close> are the columns \<^verbatim>\<open>from\<close> and \<^verbatim>\<open>to\<close>).
  The column \<^verbatim>\<open>strand\<close> is a string: the queries compare it with \<^verbatim>\<open>'+'\<close> and \<^verbatim>\<open>'-'\<close>.
\<close>

record hit =
  seq_id :: string
  accession :: string
  ribozyme :: string
  from_pos :: int
  to_pos :: int
  strand :: string
  score :: real
  evalue :: real
  inc :: string

text \<open>
  The keyword arguments of \<^verbatim>\<open>ribozyme_filter\<close> that steer the classification.
  \<open>max_evalue\<close> is taken non-negative (the command line's default is 0.01): a negative
  one would make \<^verbatim>\<open>max_evalue ** 0.5\<close> a complex number.
\<close>

record params =
  use_cm_cutoff :: bool
  cm_cutoff_type :: CmCutoffType
  use_evalue_cutoff :: bool
  max_evalue :: real

text \<open>The three sets \<^verbatim>\<open>rz_plus\<close>, \<^verbatim>\<open>rz_minus\<close>, \<^verbatim>\<open>rz_significant\<close> of sequence ids.\<close>

record evidence =
  rz_plus :: "string set"
  rz_minus :: "string set"
  rz_significant :: "string set"

definition no_evidence :: evidence where
  "no_evidence = \<lparr>rz_plus = {}, rz_minus = {}, rz_significant = {}\<rparr>"

text \<open>\<^verbatim>\<open>rz_df.query(P).seq_id\<close>, as the set that \<^verbatim>\<open>set.update\<close> adds.\<close>

definition query_seq_id :: "(hit \<Rightarrow> bool) \<Rightarrow> hit list \<Rightarrow> string set" where
  "query_seq_id P rz_df = set (map seq_id (filter P rz_df))"

subsection \<open>The body of the loop over the groups\<close>

text \<open>
  Lines 117 to 131: the tests against the model's cutoff. The guard is the truth value of
  the table (non-empty), and \<^verbatim>\<open>cutoffs[rz_name]\<close> raises \<^verbatim>\<open>KeyError\<close> for a name that
  is not a key.
\<close>

definition cutoff_update ::
  "params \<Rightarrow> cutoff_table \<Rightarrow> evidence \<Rightarrow> string \<times> hit list \<Rightarrow> error + evidence" where
  "cutoff_update p cutoffs ev g =
     (case g of (rz_name, rz_df) \<Rightarrow>
        if use_cm_cutoff p \<and> cutoffs \<noteq> [] then
          (case map_of cutoffs rz_name of
             None \<Rightarrow> Inl (KeyError rz_name)
           | Some c \<Rightarrow>
               Inr \<lparr>rz_plus = rz_plus ev \<union>
                      query_seq_id (\<lambda>h. strand h = ''+'' \<and> score h > cutoff_of c (cm_cutoff_type p)) rz_df,
                    rz_minus = rz_minus ev \<union>
                      query_seq_id (\<lambda>h. strand h = ''-'' \<and> score h > cutoff_of c (cm_cutoff_type p)) rz_df,
                    rz_significant = rz_significant ev \<union>
                      query_seq_id (\<lambda>h. score h > cutoff_of c (cm_cutoff_type p)) rz_df\<rparr>)
        else Inr ev)"

text \<open>Lines 133 to 141: the tests against the e-value.\<close>

definition evalue_update :: "params \<Rightarrow> evidence \<Rightarrow> hit list \<Rightarrow> evidence" where
  "evalue_update p ev rz_df =
     (if use_evalue_cutoff p then
        \<lparr>rz_plus = rz_plus ev \<union>
           query_seq_id (\<lambda>h. strand h = ''+'' \<and> evalue h < sqrt (max_evalue p)) rz_df,
         rz_minus = rz_minus ev \<union>
           query_seq_id (\<lambda>h. strand h = ''-'' \<and> evalue h < sqrt (max_evalue p)) rz_df,
         rz_significant = rz_significant ev \<union>
           query_seq_id (\<lambda>h. evalue h < max_evalue p) rz_df\<rparr>
      else ev)"

definition group_step ::
  "params \<Rightarrow> cutoff_table \<Rightarrow> evidence \<Rightarrow> string \<times> hit list \<Rightarrow> error + evidence" where
  "group_step p cutoffs ev g =
     (case cutoff_update p cutoffs ev g of
        Inl e \<Rightarrow> Inl e
      | Inr ev' \<Rightarrow> Inr (evalue_update p ev' (snd g)))"

text \<open>The loop \<^verbatim>\<open>for rz_name, rz_df in ...\<close> over a list of groups.\<close>

fun scan_groups ::
  "params \<Rightarrow> cutoff_table \<Rightarrow> evidence \<Rightarrow> (string \<times> hit list) list \<Rightarrow> error + evidence" where
  "scan_groups p cutoffs ev [] = Inr ev"
| "scan_groups p cutoffs ev (g # gs) =
     (case group_step p cutoffs ev g of
        Inl e \<Rightarrow> Inl e
      | Inr ev' \<Rightarrow> scan_groups p cutoffs ev' gs)"

text \<open>
  \<^verbatim>\<open>ribozymes.groupby(["ribozyme"])\<close>: one group for each name in the column, in
  ascending order of the names, holding the rows of that name in their order. (The key
  of a group is the name itself, as in the pandas 1 releases the code was written for.)
\<close>

definition groupby_ribozyme :: "hit list \<Rightarrow> (string \<times> hit list) list" where
  "groupby_ribozyme ribozymes =
     map (\<lambda>k. (k, filter (\<lambda>h. ribozyme h = k) ribozymes))
         (sort (remdups (map ribozyme ribozymes)))"

subsection \<open>The derived sets and the result\<close>

text \<open>Lines 144 to 148.\<close>

definition double_rz_ids :: "evidence \<Rightarrow> string set" where
  "double_rz_ids ev = rz_plus ev \<inter> rz_minus ev"

definition single_rz_ids :: "evidence \<Rightarrow> string set" where
  "single_rz_ids ev = rz_significant ev - double_rz_ids ev"

definition ribozy_likes_ids :: "evidence \<Rightarrow> string set" where
  "ribozy_likes_ids ev = double_rz_ids ev \<union> single_rz_ids ev"

text \<open>
  Lines 162 and 163 write the column \<^verbatim>\<open>Polarity\<close>; the second assignment is the later
  one. A row is a hit with its label (\<open>None\<close> where the column stays empty).
\<close>

type_synonym row = "hit \<times> string option"

definition polarity :: "evidence \<Rightarrow> hit \<Rightarrow> string option" where
  "polarity ev h =
     (if seq_id h \<in> single_rz_ids ev then Some ''(+)''
      else if seq_id h \<in> double_rz_ids ev then Some ''(+) and (-)''
      else None)"

definition rows_isin :: "evidence \<Rightarrow> string set \<Rightarrow> hit list \<Rightarrow> row list" where
  "rows_isin ev ids ribozymes =
     map (\<lambda>h. (h, polarity ev h)) (filter (\<lambda>h. seq_id h \<in> ids) ribozymes)"

text \<open>The returned dictionary of the three data frames.\<close>

record result =
  single_rzs :: "row list"
  double_rzs :: "row list"
  ribozy_likes :: "row list"

text \<open>
  Lines 102 to 180 for a given list of groups: the loop, the derived sets, the early
  return and the three frames. (Writing \<^verbatim>\<open>output_tsv\<close> and logging are effects outside
  the model.)
\<close>

definition analyse ::
  "params \<Rightarrow> cutoff_table \<Rightarrow> hit list \<Rightarrow> (string \<times> hit list) list \<Rightarrow> error + result option" where
  "analyse p cutoffs ribozymes groups =
     (case scan_groups p cutoffs no_evidence groups of
        Inl e \<Rightarrow> Inl e
      | Inr ev \<Rightarrow>
          if ribozy_likes_ids ev = {} then Inr None
          else Inr (Some \<lparr>single_rzs = rows_isin ev (single_rz_ids ev) ribozymes,
                          double_rzs = rows_isin ev (double_rz_ids ev) ribozymes,
                          ribozy_likes = rows_isin ev (ribozy_likes_ids ev) ribozymes\<rparr>))"

text \<open>The evidence sets of a run: the loop over the groups of the frame.\<close>

definition evidence_sets :: "params \<Rightarrow> cutoff_table \<Rightarrow> hit list \<Rightarrow> error + evidence" where
  "evidence_sets p cutoffs ribozymes =
     scan_groups p cutoffs no_evidence (groupby_ribozyme ribozymes)"

text \<open>
  \<^verbatim>\<open>ribozyme_filter\<close> from line 92 on, for a given value of the variable \<^verbatim>\<open>cutoffs\<close>:
  what the specification calls \<^verbatim>\<open>classify\<close>. \<open>Inr None\<close> is the bare \<^verbatim>\<open>return\<close>.
\<close>

definition classify :: "params \<Rightarrow> cutoff_table \<Rightarrow> hit list \<Rightarrow> error + result option" where
  "classify p cutoffs ribozymes =
     (if ribozymes = [] then Inr None
      else analyse p cutoffs ribozymes (groupby_ribozyme ribozymes))"

text \<open>
  \<^verbatim>\<open>ribozyme_filter\<close> with line 100: the table is read from \<^verbatim>\<open>cm_file\<close> (here the lines
  of the file) only after the test for an empty frame, and only when cutoffs are in use.
\<close>

definition ribozyme_filter ::
  "(string \<Rightarrow> real option) \<Rightarrow> params \<Rightarrow> string list option \<Rightarrow> hit list \<Rightarrow> error + result option" where
  "ribozyme_filter to_float p cm_file ribozymes =
     (if ribozymes = [] then Inr None
      else
        (case (case cm_file of
                 Some lines \<Rightarrow> if use_cm_cutoff p then parse_cm_file to_float lines else Inr []
               | None \<Rightarrow> Inr []) of
           Inl e \<Rightarrow> Inl e
         | Inr cutoffs \<Rightarrow> analyse p cutoffs ribozymes (groupby_ribozyme ribozymes)))"

section \<open>The notions of the specification\<close>

text \<open>
  The definitions of this section are not translations of code: they word what the
  specification says about a run, for comparison with the functions above.
\<close>

subsection \<open>Outcomes\<close>

text \<open>A call returns (rather than raises).\<close>

definition returns :: "error + 'a \<Rightarrow> bool" where
  "returns r = (case r of Inl _ \<Rightarrow> False | Inr _ \<Rightarrow> True)"

subsection \<open>Blocks of a cutoff file\<close>

text \<open>
  A line on which \<^verbatim>\<open>parse_cm_file\<close> does not raise: a sentinel, a \<^verbatim>\<open>NAME\<close> line with a
  second token, a \<^verbatim>\<open>GA\<close>, \<^verbatim>\<open>TC\<close> or \<^verbatim>\<open>NC\<close> line whose second token is a number, or any
  other line.
\<close>

definition well_formed :: "(string \<Rightarrow> real option) \<Rightarrow> string \<Rightarrow> bool" where
  "well_formed to_float line \<longleftrightarrow>
     contains ''INFERNAL'' line \<or>
     (if startswith line ''NAME'' then returns (second_token line)
      else if startswith line ''GA'' \<or> startswith line ''TC'' \<or> startswith line ''NC''
        then returns (float_field to_float line)
      else True)"

text \<open>
  The name of a block (a list of lines without sentinel): the second token of its last
  \<^verbatim>\<open>NAME\<close> line, the empty string when it has none.
\<close>

definition block_name :: "string list \<Rightarrow> string" where
  "block_name block =
     (case rev (filter (\<lambda>l. startswith l ''NAME'') block) of
        [] \<Rightarrow> []
      | l # _ \<Rightarrow> (case second_token l of Inl _ \<Rightarrow> [] | Inr t \<Rightarrow> t))"

text \<open>
  The value a block gives for a key: the number on its last line that starts with the key,
  0.0 when it has none.
\<close>

definition block_value :: "(string \<Rightarrow> real option) \<Rightarrow> string \<Rightarrow> string list \<Rightarrow> real" where
  "block_value to_float key block =
     (case rev (filter (\<lambda>l. startswith l key) block) of
        [] \<Rightarrow> 0
      | l # _ \<Rightarrow> (case float_field to_float l of Inl _ \<Rightarrow> 0 | Inr v \<Rightarrow> v))"

text \<open>The same, for lines read on top of a name or value \<open>d\<close> already held.\<close>

definition name_after :: "string \<Rightarrow> string list \<Rightarrow> string" where
  "name_after d block =
     (if filter (\<lambda>l. startswith l ''NAME'') block = [] then d else block_name block)"

definition value_after :: "(string \<Rightarrow> real option) \<Rightarrow> string \<Rightarrow> real \<Rightarrow> string list \<Rightarrow> real" where
  "value_after to_float key d block =
     (if filter (\<lambda>l. startswith l key) block = [] then d else block_value to_float key block)"

definition state_after :: "(string \<Rightarrow> real option) \<Rightarrow> parse_state \<Rightarrow> string list \<Rightarrow> parse_state" where
  "state_after to_float st block =
     \<lparr>cutoffs_dict = cutoffs_dict st,
      last_name = name_after (last_name st) block,
      last_cutoff = \<lparr>ga = value_after to_float ''GA'' (ga (last_cutoff st)) block,
                     tc = value_after to_float ''TC'' (tc (last_cutoff st)) block,
                     nc = value_after to_float ''NC'' (nc (last_cutoff st)) block\<rparr>\<rparr>"

subsection \<open>Tests on one hit\<close>

text \<open>The lookup of a group's name in the table raises.\<close>

definition lookup_fails :: "params \<Rightarrow> cutoff_table \<Rightarrow> string \<Rightarrow> bool" where
  "lookup_fails p cutoffs rz_name \<longleftrightarrow>
     use_cm_cutoff p \<and> cutoffs \<noteq> [] \<and> map_of cutoffs rz_name = None"

text \<open>The cutoff test: the score is strictly above the selected cutoff of the profile.\<close>

definition above_cutoff :: "params \<Rightarrow> cutoff_table \<Rightarrow> string \<Rightarrow> hit \<Rightarrow> bool" where
  "above_cutoff p cutoffs rz_name h \<longleftrightarrow>
     use_cm_cutoff p \<and> cutoffs \<noteq> [] \<and>
     (case map_of cutoffs rz_name of
        None \<Rightarrow> False
      | Some c \<Rightarrow> score h > cutoff_of c (cm_cutoff_type p))"

text \<open>Evidence for a strand: the cutoff test, or the e-value below the loose threshold.\<close>

definition strand_evidence :: "params \<Rightarrow> cutoff_table \<Rightarrow> string \<Rightarrow> hit \<Rightarrow> bool" where
  "strand_evidence p cutoffs rz_name h \<longleftrightarrow>
     above_cutoff p cutoffs rz_name h \<or>
     (use_evalue_cutoff p \<and> evalue h < sqrt (max_evalue p))"

text \<open>Significance: the cutoff test, or the e-value below the strict threshold.\<close>

definition significant :: "params \<Rightarrow> cutoff_table \<Rightarrow> string \<Rightarrow> hit \<Rightarrow> bool" where
  "significant p cutoffs rz_name h \<longleftrightarrow>
     above_cutoff p cutoffs rz_name h \<or>
     (use_evalue_cutoff p \<and> evalue h < max_evalue p)"

subsection \<open>Partial evidence and its union\<close>

text \<open>The three sets one group gives by itself.\<close>

definition group_sets :: "params \<Rightarrow> cutoff_table \<Rightarrow> string \<times> hit list \<Rightarrow> evidence" where
  "group_sets p cutoffs g =
     \<lparr>rz_plus = query_seq_id (\<lambda>h. strand h = ''+'' \<and> strand_evidence p cutoffs (fst g) h) (snd g),
      rz_minus = query_seq_id (\<lambda>h. strand h = ''-'' \<and> strand_evidence p cutoffs (fst g) h) (snd g),
      rz_significant = query_seq_id (significant p cutoffs (fst g)) (snd g)\<rparr>"

text \<open>The union of two, and of a list of, partial results.\<close>

definition merge :: "evidence \<Rightarrow> evidence \<Rightarrow> evidence" where
  "merge a b =
     \<lparr>rz_plus = rz_plus a \<union> rz_plus b,
      rz_minus = rz_minus a \<union> rz_minus b,
      rz_significant = rz_significant a \<union> rz_significant b\<rparr>"

definition merge_all :: "evidence list \<Rightarrow> evidence" where
  "merge_all evs = foldr merge evs no_evidence"

text \<open>The three sets of a frame, hit by hit, without any grouping.\<close>

definition run_sets :: "params \<Rightarrow> cutoff_table \<Rightarrow> hit list \<Rightarrow> evidence" where
  "run_sets p cutoffs ribozymes =
     \<lparr>rz_plus = query_seq_id (\<lambda>h. strand h = ''+'' \<and> strand_evidence p cutoffs (ribozyme h) h) ribozymes,
      rz_minus = query_seq_id (\<lambda>h. strand h = ''-'' \<and> strand_evidence p cutoffs (ribozyme h) h) ribozymes,
      rz_significant = query_seq_id (\<lambda>h. significant p cutoffs (ribozyme h) h) ribozymes\<rparr>"

subsection \<open>Sample data\<close>

text \<open>
  A row with the five columns the classification reads: sequence id, profile name,
  strand, score and e-value.
\<close>

definition mk_hit :: "string \<Rightarrow> string \<Rightarrow> string \<Rightarrow> real \<Rightarrow> real \<Rightarrow> hit" where
  "mk_hit sid name str sc ev =
     \<lparr>seq_id = sid, accession = ''-'', ribozyme = name, from_pos = 1, to_pos = 2,
      strand = str, score = sc, evalue = ev, inc = ''!''\<rparr>"

definition mk_params :: "bool \<Rightarrow> CmCutoffType \<Rightarrow> bool \<Rightarrow> real \<Rightarrow> params" where
  "mk_params uc kind ue m =
     \<lparr>use_cm_cutoff = uc, cm_cutoff_type = kind, use_evalue_cutoff = ue, max_evalue = m\<rparr>"

section \<open>Properties\<close>

subsection \<open>Auxiliary facts\<close>

lemma returns_simps [simp]: "returns (Inr x)" "\<not> returns (Inl e)"
  by (simp_all add: returns_def)

lemma returns_iff: "returns r \<longleftrightarrow> (\<exists>x. r = Inr x)"
  by (cases r) simp_all

lemma parse_lines_append:
  "parse_lines to_float st (xs @ ys) =
     (case parse_lines to_float st xs of
        Inl e \<Rightarrow> Inl e
      | Inr st' \<Rightarrow> parse_lines to_float st' ys)"
  by (induction xs arbitrary: st) (auto split: sum.splits)

lemma startswith_keys:
  "startswith l ''NAME'' \<Longrightarrow> \<not> startswith l ''GA''"
  "startswith l ''NAME'' \<Longrightarrow> \<not> startswith l ''TC''"
  "startswith l ''NAME'' \<Longrightarrow> \<not> startswith l ''NC''"
  "startswith l ''GA'' \<Longrightarrow> \<not> startswith l ''TC''"
  "startswith l ''GA'' \<Longrightarrow> \<not> startswith l ''NC''"
  "startswith l ''TC'' \<Longrightarrow> \<not> startswith l ''NC''"
  by (cases l; cases "tl l"; auto simp: startswith_def)+

lemma parse_line_ok_iff:
  "returns (parse_line to_float st line) \<longleftrightarrow> well_formed to_float line"
  by (auto simp: parse_line_def well_formed_def returns_def split: sum.splits)

lemma parse_lines_ok_iff:
  "returns (parse_lines to_float st ls) \<longleftrightarrow> (\<forall>l\<in>set ls. well_formed to_float l)"
proof (induction ls arbitrary: st)
  case Nil
  show ?case by simp
next
  case (Cons l ls)
  show ?case
  proof (cases "parse_line to_float st l")
    case (Inl e)
    with parse_line_ok_iff [of to_float st l] show ?thesis by simp
  next
    case (Inr st')
    with parse_line_ok_iff [of to_float st l] Cons.IH [of st'] show ?thesis by simp
  qed
qed

lemma name_after_snoc:
  "name_after d (xs @ [l]) =
     (if startswith l ''NAME'' then (case second_token l of Inl _ \<Rightarrow> [] | Inr t \<Rightarrow> t)
      else name_after d xs)"
  by (simp add: name_after_def block_name_def)

lemma value_after_snoc:
  "value_after to_float key d (xs @ [l]) =
     (if startswith l key then (case float_field to_float l of Inl _ \<Rightarrow> 0 | Inr v \<Rightarrow> v)
      else value_after to_float key d xs)"
  by (simp add: value_after_def block_value_def)

lemma name_after_Nil [simp]: "name_after d [] = d"
  by (simp add: name_after_def)

lemma value_after_Nil [simp]: "value_after to_float key d [] = d"
  by (simp add: value_after_def)

lemma state_after_Nil [simp]: "state_after to_float st [] = st"
  by (simp add: state_after_def)

lemma parse_line_block:
  assumes "\<not> contains ''INFERNAL'' l" and "parse_line to_float (state_after to_float st xs) l = Inr st'"
  shows "st' = state_after to_float st (xs @ [l])"
  using assms
  by (auto simp: parse_line_def state_after_def name_after_snoc value_after_snoc startswith_keys
      split: if_splits sum.splits)

lemma parse_lines_block:
  assumes "\<forall>l\<in>set block. \<not> contains ''INFERNAL'' l"
    and "parse_lines to_float st block = Inr st'"
  shows "st' = state_after to_float st block"
  using assms
proof (induction block arbitrary: st' rule: rev_induct)
  case Nil
  then show ?case by simp
next
  case (snoc l xs)
  from snoc.prems(2) obtain st1 where st1: "parse_lines to_float st xs = Inr st1"
    and l: "parse_line to_float st1 l = Inr st'"
    by (auto simp: parse_lines_append split: sum.splits)
  from snoc.IH [OF _ st1] snoc.prems(1) have "st1 = state_after to_float st xs" by simp
  with l snoc.prems(1) show ?case by (simp add: parse_line_block)
qed

lemma parse_line_sentinel:
  assumes "contains ''INFERNAL'' l"
  shows "\<exists>d. parse_line to_float st l = Inr \<lparr>cutoffs_dict = d, last_name = [], last_cutoff = zero_cutoff\<rparr>"
  using assms by (simp add: parse_line_def)

lemma parse_line_sentinel_unnamed:
  assumes "contains ''INFERNAL'' l" and "last_name st = []"
  shows "parse_line to_float st l =
           Inr \<lparr>cutoffs_dict = cutoffs_dict st, last_name = [], last_cutoff = zero_cutoff\<rparr>"
  using assms by (simp add: parse_line_def)

lemma parse_lines_sentinels:
  assumes "\<forall>l\<in>set hdr. contains ''INFERNAL'' l"
  shows "parse_lines to_float initial_state hdr = Inr initial_state"
  using assms
proof (induction hdr rule: rev_induct)
  case Nil
  show ?case by simp
next
  case (snoc l xs)
  then show ?case
    by (simp add: parse_lines_append parse_line_sentinel_unnamed initial_state_def)
qed

lemma parse_lines_ends_in_sentinel:
  assumes "parse_lines to_float initial_state pre = Inr st"
    and "pre = [] \<or> contains ''INFERNAL'' (last pre)"
  shows "last_name st = [] \<and> last_cutoff st = zero_cutoff"
proof (cases pre rule: rev_cases)
  case Nil
  with assms(1) show ?thesis by (auto simp: initial_state_def)
next
  case (snoc xs l)
  with assms(2) have l: "contains ''INFERNAL'' l" by simp
  from assms(1) snoc obtain st1 where "parse_line to_float st1 l = Inr st"
    by (auto simp: parse_lines_append split: sum.splits)
  with parse_line_sentinel [OF l, of to_float st1] show ?thesis by auto
qed

lemma map_of_dict_set: "map_of (dict_set k v d) k = Some v"
  by (induction d) auto

lemma map_of_dict_set_other: "k' \<noteq> k \<Longrightarrow> map_of (dict_set k v d) k' = map_of d k'"
  by (induction d) auto

lemma tokens_nonempty: "t \<in> set (tokens cur s) \<Longrightarrow> t \<noteq> []"
  by (induction s arbitrary: cur) (auto split: if_splits)

lemma second_token_nonempty: "second_token l = Inr t \<Longrightarrow> t \<noteq> []"
proof -
  assume a: "second_token l = Inr t"
  then have "t \<in> set (tokens [] l)"
    by (auto simp: second_token_def split_def split: list.splits)
  then show ?thesis by (rule tokens_nonempty)
qed

lemma query_seq_id_Un:
  "query_seq_id (\<lambda>h. P h \<or> Q h) rows = query_seq_id P rows \<union> query_seq_id Q rows"
  by (auto simp: query_seq_id_def)

lemma query_seq_id_False [simp]: "query_seq_id (\<lambda>h. False) rows = {}"
  by (simp add: query_seq_id_def)

lemma group_step_eq:
  "group_step p cutoffs ev g =
     (if lookup_fails p cutoffs (fst g) then Inl (KeyError (fst g))
      else Inr (merge ev (group_sets p cutoffs g)))"
  by (cases g)
     (auto simp: group_step_def cutoff_update_def evalue_update_def lookup_fails_def merge_def
        group_sets_def strand_evidence_def significant_def above_cutoff_def query_seq_id_def
        split: option.splits)

lemma merge_assoc: "merge (merge a b) c = merge a (merge b c)"
  by (simp add: merge_def Un_assoc)

lemma merge_commute: "merge a b = merge b a"
  by (simp add: merge_def Un_commute)

lemma merge_no_evidence [simp]: "merge no_evidence a = a" "merge a no_evidence = a"
  by (simp_all add: merge_def no_evidence_def)

lemma scan_groups_Inr_iff:
  "scan_groups p cutoffs ev gs = Inr ev' \<longleftrightarrow>
     (\<forall>g\<in>set gs. \<not> lookup_fails p cutoffs (fst g)) \<and>
     ev' = merge ev (merge_all (map (group_sets p cutoffs) gs))"
proof (induction gs arbitrary: ev)
  case Nil
  show ?case by (auto simp: merge_all_def)
next
  case (Cons g gs)
  show ?case
    by (auto simp: group_step_eq Cons.IH merge_all_def merge_assoc)
qed

lemma scan_groups_Inl:
  "scan_groups p cutoffs ev gs = Inl e \<Longrightarrow>
     \<exists>g\<in>set gs. lookup_fails p cutoffs (fst g) \<and> e = KeyError (fst g)"
proof (induction gs arbitrary: ev)
  case Nil
  then show ?case by simp
next
  case (Cons g gs)
  then show ?case
    by (auto simp: group_step_eq split: if_splits)
qed

lemma merge_all_sets:
  "rz_plus (merge_all evs) = (\<Union>e\<in>set evs. rz_plus e)"
  "rz_minus (merge_all evs) = (\<Union>e\<in>set evs. rz_minus e)"
  "rz_significant (merge_all evs) = (\<Union>e\<in>set evs. rz_significant e)"
  by (induction evs) (simp_all add: merge_all_def merge_def no_evidence_def)

lemma merge_all_append: "merge_all (xs @ ys) = merge (merge_all xs) (merge_all ys)"
  by (induction xs) (simp_all add: merge_all_def merge_assoc)

lemma merge_all_cong_set: "set xs = set ys \<Longrightarrow> merge_all xs = merge_all ys"
  by (rule evidence.equality) (simp_all add: merge_all_sets)

lemma set_groupby_ribozyme:
  "set (groupby_ribozyme ribozymes) =
     (\<lambda>k. (k, filter (\<lambda>h. ribozyme h = k) ribozymes)) ` ribozyme ` set ribozymes"
  by (simp add: groupby_ribozyme_def)

lemma name_in_groupby:
  "g \<in> set (groupby_ribozyme ribozymes) \<Longrightarrow> \<exists>h\<in>set ribozymes. ribozyme h = fst g"
  by (auto simp: set_groupby_ribozyme)

lemma query_groups:
  "(\<Union>g\<in>set (groupby_ribozyme ribozymes). query_seq_id (P (fst g)) (snd g)) =
     query_seq_id (\<lambda>h. P (ribozyme h) h) ribozymes"
  by (auto simp: set_groupby_ribozyme query_seq_id_def)

lemma merge_all_groupby:
  "merge_all (map (group_sets p cutoffs) (groupby_ribozyme ribozymes)) = run_sets p cutoffs ribozymes"
proof (rule evidence.equality)
  show "rz_plus (merge_all (map (group_sets p cutoffs) (groupby_ribozyme ribozymes))) =
        rz_plus (run_sets p cutoffs ribozymes)"
    using query_groups [of "\<lambda>k h. strand h = ''+'' \<and> strand_evidence p cutoffs k h" ribozymes]
    by (simp add: merge_all_sets group_sets_def run_sets_def)
  show "rz_minus (merge_all (map (group_sets p cutoffs) (groupby_ribozyme ribozymes))) =
        rz_minus (run_sets p cutoffs ribozymes)"
    using query_groups [of "\<lambda>k h. strand h = ''-'' \<and> strand_evidence p cutoffs k h" ribozymes]
    by (simp add: merge_all_sets group_sets_def run_sets_def)
  show "rz_significant (merge_all (map (group_sets p cutoffs) (groupby_ribozyme ribozymes))) =
        rz_significant (run_sets p cutoffs ribozymes)"
    using query_groups [of "significant p cutoffs" ribozymes]
    by (simp add: merge_all_sets group_sets_def run_sets_def)
qed simp

lemma evidence_sets_Inr_iff:
  "evidence_sets p cutoffs ribozymes = Inr ev \<longleftrightarrow>
     (\<forall>h\<in>set ribozymes. \<not> lookup_fails p cutoffs (ribozyme h)) \<and>
     ev = run_sets p cutoffs ribozymes"
  by (auto simp: evidence_sets_def scan_groups_Inr_iff merge_all_groupby set_groupby_ribozyme)

lemma evidence_sets_Inl:
  assumes "evidence_sets p cutoffs ribozymes = Inl e"
  shows "\<exists>h\<in>set ribozymes. lookup_fails p cutoffs (ribozyme h) \<and> e = KeyError (ribozyme h)"
proof -
  from assms obtain g where g: "g \<in> set (groupby_ribozyme ribozymes)"
    "lookup_fails p cutoffs (fst g)" "e = KeyError (fst g)"
    unfolding evidence_sets_def by (blast dest: scan_groups_Inl)
  from name_in_groupby [OF g(1)] obtain h where "h \<in> set ribozymes" "ribozyme h = fst g"
    by blast
  with g(2,3) show ?thesis by (intro bexI [of _ h]) simp_all
qed

lemma classify_eq:
  "classify p cutoffs ribozymes =
     (if ribozymes = [] then Inr None
      else case evidence_sets p cutoffs ribozymes of
             Inl e \<Rightarrow> Inl e
           | Inr ev \<Rightarrow>
               if ribozy_likes_ids ev = {} then Inr None
               else Inr (Some \<lparr>single_rzs = rows_isin ev (single_rz_ids ev) ribozymes,
                               double_rzs = rows_isin ev (double_rz_ids ev) ribozymes,
                               ribozy_likes = rows_isin ev (ribozy_likes_ids ev) ribozymes\<rparr>))"
  by (simp add: classify_def analyse_def evidence_sets_def)

lemma sqrt_hundredth: "sqrt (1 / 100) = 1 / 10"
  by (rule real_sqrt_unique) (simp_all add: power2_eq_square)

lemma run_sets_off:
  assumes "\<not> use_cm_cutoff p \<or> cutoffs = []" and "\<not> use_evalue_cutoff p"
  shows "run_sets p cutoffs ribozymes = no_evidence"
  using assms
  by (auto simp: run_sets_def no_evidence_def strand_evidence_def significant_def above_cutoff_def)

lemma groups_two:
  "groupby_ribozyme [mk_hit ''s1'' ''A'' ''+'' 50 0, mk_hit ''s2'' ''B'' ''+'' 50 0] =
     [(''A'', [mk_hit ''s1'' ''A'' ''+'' 50 0]), (''B'', [mk_hit ''s2'' ''B'' ''+'' 50 0])]"
  by code_simp

lemma in_query_seq_id: "h \<in> set rows \<Longrightarrow> P h \<Longrightarrow> seq_id h \<in> query_seq_id P rows"
  by (auto simp: query_seq_id_def)

lemma query_seq_id_iff: "s \<in> query_seq_id P rows \<longleftrightarrow> (\<exists>h. h \<in> set rows \<and> P h \<and> seq_id h = s)"
  by (auto simp: query_seq_id_def)

lemma query_seq_id_mono:
  "(\<And>h. h \<in> set rows \<Longrightarrow> P h \<Longrightarrow> Q h) \<Longrightarrow> query_seq_id P rows \<subseteq> query_seq_id Q rows"
  by (auto simp: query_seq_id_def)

lemma finite_query_seq_id [simp]: "finite (query_seq_id P rows)"
  by (simp add: query_seq_id_def)

lemma ribozy_likes_ids_eq: "ribozy_likes_ids ev = (rz_plus ev \<inter> rz_minus ev) \<union> rz_significant ev"
  by (auto simp: ribozy_likes_ids_def single_rz_ids_def double_rz_ids_def)

lemma scan_groups_cong_set:
  assumes "set gs = set gs'"
  shows "scan_groups p cutoffs ev gs = Inr ev' \<longleftrightarrow> scan_groups p cutoffs ev gs' = Inr ev'"
proof -
  from assms have "set (map (group_sets p cutoffs) gs) = set (map (group_sets p cutoffs) gs')"
    by simp
  then have "merge_all (map (group_sets p cutoffs) gs) = merge_all (map (group_sets p cutoffs) gs')"
    by (rule merge_all_cong_set)
  with assms show ?thesis by (simp add: scan_groups_Inr_iff)
qed

lemma merge_all_Cons: "merge_all (e # es) = merge e (merge_all es)"
  by (simp add: merge_all_def)

lemma scan_parts:
  "(\<exists>evs. map (scan_groups p cutoffs no_evidence) parts = map Inr evs \<and> ev = merge_all evs) \<longleftrightarrow>
     (\<forall>g\<in>set (concat parts). \<not> lookup_fails p cutoffs (fst g)) \<and>
     ev = merge_all (map (group_sets p cutoffs) (concat parts))"
proof (induction parts arbitrary: ev)
  case Nil
  show ?case by (simp add: merge_all_def)
next
  case (Cons part parts)
  let ?f = "scan_groups p cutoffs no_evidence"
  let ?ok = "\<lambda>gs. \<forall>g\<in>set gs. \<not> lookup_fails p cutoffs (fst g)"
  let ?m = "\<lambda>gs. merge_all (map (group_sets p cutoffs) gs)"
  have "(\<exists>evs. map ?f (part # parts) = map Inr evs \<and> ev = merge_all evs) \<longleftrightarrow>
        (\<exists>e es. ?f part = Inr e \<and> map ?f parts = map Inr es \<and> ev = merge e (merge_all es))"
    by (auto simp: Cons_eq_map_conv merge_all_Cons)
  also have "\<dots> \<longleftrightarrow> (\<exists>e. ?f part = Inr e \<and> (\<exists>ev'. (\<exists>es. map ?f parts = map Inr es \<and> ev' = merge_all es) \<and> ev = merge e ev'))"
    by blast
  also have "\<dots> \<longleftrightarrow> (?ok part \<and> ?ok (concat parts) \<and> ev = merge (?m part) (?m (concat parts)))"
    unfolding Cons.IH by (auto simp: scan_groups_Inr_iff)
  also have "\<dots> \<longleftrightarrow> (?ok (concat (part # parts)) \<and> ev = ?m (concat (part # parts)))"
    by (auto simp: merge_all_append)
  finally show ?case .
qed

lemma analyse_Inr_iff:
  "analyse p cutoffs ribozymes gs = Inr r \<longleftrightarrow>
     (\<exists>ev. scan_groups p cutoffs no_evidence gs = Inr ev \<and>
           r = (if ribozy_likes_ids ev = {} then None
                else Some \<lparr>single_rzs = rows_isin ev (single_rz_ids ev) ribozymes,
                           double_rzs = rows_isin ev (double_rz_ids ev) ribozymes,
                           ribozy_likes = rows_isin ev (ribozy_likes_ids ev) ribozymes\<rparr>))"
  by (cases "scan_groups p cutoffs no_evidence gs") (auto simp: analyse_def)

lemma parse_lines_returns:
  assumes "\<forall>l\<in>set ls. well_formed to_float l"
  obtains st' where "parse_lines to_float st ls = Inr st'"
  using assms parse_lines_ok_iff [of to_float st ls] by (auto simp: returns_iff)

lemma block_name_nonempty:
  assumes "l \<in> set block" and "startswith l ''NAME''"
    and "\<forall>l\<in>set block. \<not> contains ''INFERNAL'' l"
    and "\<forall>l\<in>set block. well_formed to_float l"
  shows "block_name block \<noteq> []"
proof -
  let ?ns = "filter (\<lambda>l. startswith l ''NAME'') block"
  from assms(1,2) have ne: "?ns \<noteq> []" by (auto simp: filter_empty_conv)
  then obtain l' rest where r: "rev ?ns = l' # rest" by (cases "rev ?ns") auto
  then have "l' \<in> set ?ns" by (metis list.set_intros(1) set_rev)
  then have l': "l' \<in> set block" "startswith l' ''NAME''" by auto
  with assms(3,4) have "returns (second_token l')" by (auto simp: well_formed_def)
  then obtain t where t: "second_token l' = Inr t" by (auto simp: returns_iff)
  then have "t \<noteq> []" by (rule second_token_nonempty)
  with r t show ?thesis by (simp add: block_name_def)
qed

lemma sqrt_quarter: "sqrt (1 / 4) = 1 / 2"
  by (rule real_sqrt_unique) (simp_all add: power2_eq_square)

lemmas run_defs =
  evidence_sets_def groupby_ribozyme_def group_step_def cutoff_update_def evalue_update_def
  no_evidence_def query_seq_id_def mk_params_def mk_hit_def

lemma groups_two_rev:
  "groupby_ribozyme [mk_hit ''s2'' ''B'' ''-'' 50 1, mk_hit ''s1'' ''A'' ''+'' 50 1] =
     [(''A'', [mk_hit ''s1'' ''A'' ''+'' 50 1]), (''B'', [mk_hit ''s2'' ''B'' ''-'' 50 1])]"
  by code_simp

lemma query_seq_id_subset: "query_seq_id P rows \<subseteq> seq_id ` set rows"
  by (auto simp: query_seq_id_def)

lemma run_sets_subset:
  "rz_plus (run_sets p cutoffs ribozymes) \<subseteq> seq_id ` set ribozymes"
  "rz_minus (run_sets p cutoffs ribozymes) \<subseteq> seq_id ` set ribozymes"
  "rz_significant (run_sets p cutoffs ribozymes) \<subseteq> seq_id ` set ribozymes"
  by (simp_all add: run_sets_def query_seq_id_subset)

lemma ids_of_rows_isin:
  assumes "ids \<subseteq> seq_id ` set ribozymes"
  shows "(\<lambda>row. seq_id (fst row)) ` set (rows_isin ev ids ribozymes) = ids"
proof -
  have "(\<lambda>row. seq_id (fst row)) ` set (rows_isin ev ids ribozymes) =
        seq_id ` {h \<in> set ribozymes. seq_id h \<in> ids}"
    by (simp add: rows_isin_def image_image)
  also from assms have "\<dots> = ids" by auto
  finally show ?thesis .
qed

lemma dict_set_nonempty: "dict_set k v d \<noteq> []"
  by (cases d) auto

lemma parse_cm_file_nonempty: "parse_cm_file to_float lines = Inr tbl \<Longrightarrow> tbl \<noteq> []"
  by (auto simp: parse_cm_file_def dict_set_nonempty split: sum.splits)

lemma parse_cm_file_empty: "parse_cm_file to_float [] = Inr [([], zero_cutoff)]"
  by (simp add: parse_cm_file_def initial_state_def)

lemma ribozyme_filter_eq:
  "ribozyme_filter to_float p cm_file ribozymes =
     (if ribozymes = [] then Inr None
      else case (case cm_file of
                   Some lines \<Rightarrow> if use_cm_cutoff p then parse_cm_file to_float lines else Inr []
                 | None \<Rightarrow> Inr []) of
             Inl e \<Rightarrow> Inl e
           | Inr cutoffs \<Rightarrow> classify p cutoffs ribozymes)"
  by (simp add: ribozyme_filter_def classify_def split: sum.splits)

subsection \<open>A profile without an entry in the table\<close>

text \<open>
  Claim C1, as the specification has it: a profile name of the hits that has no entry in a
  non-empty cutoff table only switches the cutoff tests of its group off, and the run
  completes. The code does otherwise. The guard of line 117 asks whether the table is
  non-empty, not whether it has the name, so \<^verbatim>\<open>cutoffs[rz_name]\<close> raises \<^verbatim>\<open>KeyError\<close>:
  here for the profile \<open>B\<close>, with the e-value filter on as well.
\<close>

theorem missing_cutoff_counterexample:
  "classify (mk_params True GA True (1 / 100)) [(''A'', \<lparr>ga = 45, tc = 45, nc = 30\<rparr>)]
     [mk_hit ''s1'' ''A'' ''+'' 50 0, mk_hit ''s2'' ''B'' ''+'' 50 0] = Inl (KeyError ''B'')"
  by (simp add: classify_def analyse_def groups_two group_step_def cutoff_update_def
        evalue_update_def no_evidence_def query_seq_id_def mk_params_def)

text \<open>
  Claim C1, amended: when the cutoff filter is on, the table is non-empty and some hit's
  profile name has no entry in it, the run raises \<^verbatim>\<open>KeyError\<close> for a profile name of the
  hits that has no entry; it yields no evidence sets and no result.
\<close>

theorem missing_cutoff_raises:
  assumes "use_cm_cutoff p" and "cutoffs \<noteq> []"
    and "h \<in> set ribozymes" and "map_of cutoffs (ribozyme h) = None"
  shows "\<exists>k. classify p cutoffs ribozymes = Inl (KeyError k) \<and>
             evidence_sets p cutoffs ribozymes = Inl (KeyError k) \<and>
             k \<in> ribozyme ` set ribozymes \<and> map_of cutoffs k = None"
proof -
  from assms have "lookup_fails p cutoffs (ribozyme h)"
    by (simp add: lookup_fails_def)
  with assms(3) have "\<not> (\<exists>ev. evidence_sets p cutoffs ribozymes = Inr ev)"
    by (auto simp: evidence_sets_Inr_iff)
  then obtain e where e: "evidence_sets p cutoffs ribozymes = Inl e"
    by (cases "evidence_sets p cutoffs ribozymes") auto
  from evidence_sets_Inl [OF e] obtain h' where h': "h' \<in> set ribozymes"
    "lookup_fails p cutoffs (ribozyme h')" "e = KeyError (ribozyme h')"
    by blast
  from assms(3) have "ribozymes \<noteq> []" by auto
  with e h' show ?thesis
    by (intro exI [of _ "ribozyme h'"]) (simp add: classify_eq lookup_fails_def)
qed

theorem missing_cutoff_raises_witness:
  "use_cm_cutoff (mk_params True GA True (1 / 100)) \<and>
   [(''A'', \<lparr>ga = 45, tc = 45, nc = 30\<rparr>)] \<noteq> [] \<and>
   mk_hit ''s2'' ''B'' ''+'' 50 0 \<in> set [mk_hit ''s1'' ''A'' ''+'' 50 0, mk_hit ''s2'' ''B'' ''+'' 50 0] \<and>
   map_of [(''A'', \<lparr>ga = 45, tc = 45, nc = 30\<rparr>)] (ribozyme (mk_hit ''s2'' ''B'' ''+'' 50 0)) = None \<and>
   (\<exists>k. classify (mk_params True GA True (1 / 100)) [(''A'', \<lparr>ga = 45, tc = 45, nc = 30\<rparr>)]
          [mk_hit ''s1'' ''A'' ''+'' 50 0, mk_hit ''s2'' ''B'' ''+'' 50 0] = Inl (KeyError k) \<and>
        evidence_sets (mk_params True GA True (1 / 100)) [(''A'', \<lparr>ga = 45, tc = 45, nc = 30\<rparr>)]
          [mk_hit ''s1'' ''A'' ''+'' 50 0, mk_hit ''s2'' ''B'' ''+'' 50 0] = Inl (KeyError k) \<and>
        k \<in> ribozyme ` set [mk_hit ''s1'' ''A'' ''+'' 50 0, mk_hit ''s2'' ''B'' ''+'' 50 0] \<and>
        map_of [(''A'', \<lparr>ga = 45, tc = 45, nc = 30\<rparr>)] k = None)"
proof -
  have 1: "use_cm_cutoff (mk_params True GA True (1 / 100))"
    by (simp add: mk_params_def)
  have 2: "[(''A'', \<lparr>ga = 45, tc = 45, nc = 30\<rparr>)] \<noteq> ([] :: cutoff_table)"
    by simp
  have 3: "mk_hit ''s2'' ''B'' ''+'' 50 0 \<in> set [mk_hit ''s1'' ''A'' ''+'' 50 0, mk_hit ''s2'' ''B'' ''+'' 50 0]"
    by simp
  have 4: "map_of [(''A'', \<lparr>ga = 45, tc = 45, nc = 30\<rparr>)] (ribozyme (mk_hit ''s2'' ''B'' ''+'' 50 0)) = None"
    by (simp add: mk_hit_def)
  from missing_cutoff_raises [OF 1 2 3 4] 1 2 3 4 show ?thesis by blast
qed

subsection \<open>The outcomes of a run\<close>

text \<open>
  Claim C2, as the specification has it: the run returns \<^verbatim>\<open>None\<close> exactly when the frame
  of hits is empty or the derived set of viroid-like ids is empty, and a result in every
  other case. There is a third outcome: for a non-empty frame whose profile \<open>B\<close> has no
  entry in the non-empty table the run raises, so it returns neither.
\<close>

theorem classify_third_outcome_counterexample:
  "[mk_hit ''s1'' ''B'' ''-'' 60 0] \<noteq> [] \<and>
   classify (mk_params True TC False (1 / 100)) [(''A'', \<lparr>ga = 45, tc = 45, nc = 30\<rparr>)]
     [mk_hit ''s1'' ''B'' ''-'' 60 0] = Inl (KeyError ''B'')"
  by (simp add: classify_def analyse_def groupby_ribozyme_def group_step_def cutoff_update_def
        evalue_update_def no_evidence_def query_seq_id_def mk_params_def mk_hit_def)

text \<open>
  Claim C2, amended: the run returns \<^verbatim>\<open>None\<close> exactly when the frame is empty or the loop
  over the groups completes with an empty set of viroid-like ids; it returns a result
  exactly when the frame is non-empty and the loop completes with a non-empty set; and it
  raises exactly when the cutoff filter is on, the table is non-empty and some hit's
  profile name has no entry in it.
\<close>

theorem classify_outcomes:
  "(classify p cutoffs ribozymes = Inr None \<longleftrightarrow>
      ribozymes = [] \<or>
      (\<exists>ev. evidence_sets p cutoffs ribozymes = Inr ev \<and> ribozy_likes_ids ev = {})) \<and>
   ((\<exists>r. classify p cutoffs ribozymes = Inr (Some r)) \<longleftrightarrow>
      ribozymes \<noteq> [] \<and>
      (\<exists>ev. evidence_sets p cutoffs ribozymes = Inr ev \<and> ribozy_likes_ids ev \<noteq> {})) \<and>
   ((\<exists>e. classify p cutoffs ribozymes = Inl e) \<longleftrightarrow>
      (\<exists>h. h \<in> set ribozymes \<and> lookup_fails p cutoffs (ribozyme h)))"
proof (intro conjI)
  show "classify p cutoffs ribozymes = Inr None \<longleftrightarrow>
      ribozymes = [] \<or>
      (\<exists>ev. evidence_sets p cutoffs ribozymes = Inr ev \<and> ribozy_likes_ids ev = {})"
    by (cases "evidence_sets p cutoffs ribozymes") (auto simp: classify_eq)
  show "(\<exists>r. classify p cutoffs ribozymes = Inr (Some r)) \<longleftrightarrow>
      ribozymes \<noteq> [] \<and>
      (\<exists>ev. evidence_sets p cutoffs ribozymes = Inr ev \<and> ribozy_likes_ids ev \<noteq> {})"
    by (cases "evidence_sets p cutoffs ribozymes") (auto simp: classify_eq)
  show "(\<exists>e. classify p cutoffs ribozymes = Inl e) \<longleftrightarrow>
      (\<exists>h. h \<in> set ribozymes \<and> lookup_fails p cutoffs (ribozyme h))"
  proof (cases "evidence_sets p cutoffs ribozymes")
    case (Inl e)
    from evidence_sets_Inl [OF Inl] have ex: "\<exists>h. h \<in> set ribozymes \<and> lookup_fails p cutoffs (ribozyme h)"
      by blast
    then have "ribozymes \<noteq> []" by auto
    with Inl ex show ?thesis by (simp add: classify_eq)
  next
    case (Inr ev)
    then have "\<not> (\<exists>h. h \<in> set ribozymes \<and> lookup_fails p cutoffs (ribozyme h))"
      by (auto simp: evidence_sets_Inr_iff)
    with Inr show ?thesis by (auto simp: classify_eq)
  qed
qed

theorem classify_outcomes_witness:
  "[mk_hit ''s1'' ''A'' ''+'' 40 1] \<noteq> [] \<and>
   evidence_sets (mk_params True GA False (1 / 100)) [(''A'', \<lparr>ga = 45, tc = 45, nc = 30\<rparr>)]
     [mk_hit ''s1'' ''A'' ''+'' 40 1] = Inr no_evidence \<and>
   ribozy_likes_ids no_evidence = {} \<and>
   classify (mk_params True GA False (1 / 100)) [(''A'', \<lparr>ga = 45, tc = 45, nc = 30\<rparr>)]
     [mk_hit ''s1'' ''A'' ''+'' 40 1] = Inr None"
proof -
  let ?p = "mk_params True GA False (1 / 100)"
  let ?c = "[(''A'', \<lparr>ga = 45, tc = 45, nc = 30\<rparr>)]"
  let ?hs = "[mk_hit ''s1'' ''A'' ''+'' 40 1]"
  have 1: "evidence_sets ?p ?c ?hs = Inr no_evidence"
    by (simp add: run_defs del: set_filter)
  have 2: "ribozy_likes_ids no_evidence = {}"
    by (simp add: ribozy_likes_ids_def double_rz_ids_def single_rz_ids_def no_evidence_def)
  from 1 2 classify_outcomes [of ?p ?c ?hs] have "classify ?p ?c ?hs = Inr None" by blast
  with 1 2 show ?thesis by simp
qed

subsection \<open>The cutoff tests\<close>

text \<open>
  Claim C3: with the cutoff filter on, take any group whose profile has the entry \<open>c\<close> in
  the table, and let \<open>t\<close> be the cutoff of \<open>c\<close> of the selected kind (\<^verbatim>\<open>GA\<close>, \<^verbatim>\<open>NC\<close> or
  \<^verbatim>\<open>TC\<close>). The cutoff tests of the group (lines 117 to 131) do not raise and add to
  \<^verbatim>\<open>rz_plus\<close> the ids of the group's hits on strand \<^verbatim>\<open>+\<close> with a score strictly above \<open>t\<close>,
  to \<^verbatim>\<open>rz_minus\<close> those on strand \<^verbatim>\<open>-\<close>, and to \<^verbatim>\<open>rz_significant\<close> those on either
  strand, and no other id. The whole round of the loop for the group does not raise
  either; after it every hit of the group with a score above \<open>t\<close> has its id in
  \<^verbatim>\<open>rz_significant\<close> and in the set of its strand, and with the e-value filter off the
  round adds nothing else. This holds for the group by itself, whatever the sets held
  before and whatever the other groups of the frame are.
\<close>

theorem cutoff_hits_added:
  assumes "use_cm_cutoff p" and "map_of cutoffs rz_name = Some c"
    and "t = (case cm_cutoff_type p of GA \<Rightarrow> ga c | NC \<Rightarrow> nc c | TC \<Rightarrow> tc c)"
  shows "cutoff_update p cutoffs ev (rz_name, rz_df) =
           Inr \<lparr>rz_plus = rz_plus ev \<union> query_seq_id (\<lambda>h. strand h = ''+'' \<and> score h > t) rz_df,
                rz_minus = rz_minus ev \<union> query_seq_id (\<lambda>h. strand h = ''-'' \<and> score h > t) rz_df,
                rz_significant = rz_significant ev \<union> query_seq_id (\<lambda>h. score h > t) rz_df\<rparr> \<and>
         (\<exists>ev'. group_step p cutoffs ev (rz_name, rz_df) = Inr ev' \<and>
            (\<forall>h\<in>set rz_df. score h > t \<longrightarrow>
               (strand h = ''+'' \<longrightarrow> seq_id h \<in> rz_plus ev') \<and>
               (strand h = ''-'' \<longrightarrow> seq_id h \<in> rz_minus ev') \<and>
               seq_id h \<in> rz_significant ev') \<and>
            (\<not> use_evalue_cutoff p \<longrightarrow>
               rz_plus ev' = rz_plus ev \<union> query_seq_id (\<lambda>h. strand h = ''+'' \<and> score h > t) rz_df \<and>
               rz_minus ev' = rz_minus ev \<union> query_seq_id (\<lambda>h. strand h = ''-'' \<and> score h > t) rz_df \<and>
               rz_significant ev' = rz_significant ev \<union> query_seq_id (\<lambda>h. score h > t) rz_df))"
proof -
  let ?cu = "\<lparr>rz_plus = rz_plus ev \<union> query_seq_id (\<lambda>h. strand h = ''+'' \<and> score h > t) rz_df,
                rz_minus = rz_minus ev \<union> query_seq_id (\<lambda>h. strand h = ''-'' \<and> score h > t) rz_df,
                rz_significant = rz_significant ev \<union> query_seq_id (\<lambda>h. score h > t) rz_df\<rparr>"
  from assms(2) have ne: "cutoffs \<noteq> []" by auto
  from assms(3) have t: "cutoff_of c (cm_cutoff_type p) = t"
    by (cases "cm_cutoff_type p") simp_all
  from assms(1,2) ne have cu: "cutoff_update p cutoffs ev (rz_name, rz_df) = Inr ?cu"
    by (simp add: cutoff_update_def t)
  then have gs: "group_step p cutoffs ev (rz_name, rz_df) = Inr (evalue_update p ?cu rz_df)"
    by (simp add: group_step_def)
  have mem: "\<forall>h\<in>set rz_df. score h > t \<longrightarrow>
               (strand h = ''+'' \<longrightarrow> seq_id h \<in> rz_plus (evalue_update p ?cu rz_df)) \<and>
               (strand h = ''-'' \<longrightarrow> seq_id h \<in> rz_minus (evalue_update p ?cu rz_df)) \<and>
               seq_id h \<in> rz_significant (evalue_update p ?cu rz_df)"
    by (auto simp: evalue_update_def intro: in_query_seq_id)
  have exact: "\<not> use_evalue_cutoff p \<longrightarrow>
               rz_plus (evalue_update p ?cu rz_df) = rz_plus ev \<union> query_seq_id (\<lambda>h. strand h = ''+'' \<and> score h > t) rz_df \<and>
               rz_minus (evalue_update p ?cu rz_df) = rz_minus ev \<union> query_seq_id (\<lambda>h. strand h = ''-'' \<and> score h > t) rz_df \<and>
               rz_significant (evalue_update p ?cu rz_df) = rz_significant ev \<union> query_seq_id (\<lambda>h. score h > t) rz_df"
    by (simp add: evalue_update_def)
  from cu gs mem exact show ?thesis by blast
qed

theorem cutoff_hits_added_witness:
  "use_cm_cutoff (mk_params True TC False (1 / 100)) \<and>
   map_of [(''Twister-P5'', \<lparr>ga = 45, tc = 48, nc = 30\<rparr>)] ''Twister-P5'' =
     Some \<lparr>ga = 45, tc = 48, nc = 30\<rparr> \<and>
   (48 :: real) = (case cm_cutoff_type (mk_params True TC False (1 / 100)) of
                     GA \<Rightarrow> ga \<lparr>ga = 45, tc = 48, nc = 30\<rparr>
                   | NC \<Rightarrow> nc \<lparr>ga = 45, tc = 48, nc = 30\<rparr>
                   | TC \<Rightarrow> tc \<lparr>ga = 45, tc = 48, nc = 30\<rparr>) \<and>
   group_step (mk_params True TC False (1 / 100)) [(''Twister-P5'', \<lparr>ga = 45, tc = 48, nc = 30\<rparr>)]
     no_evidence
     (''Twister-P5'', [mk_hit ''s1'' ''Twister-P5'' ''+'' 50 1, mk_hit ''s2'' ''Twister-P5'' ''-'' 48 1,
                       mk_hit ''s3'' ''Twister-P5'' ''+'' 46 1]) =
     Inr \<lparr>rz_plus = {''s1''}, rz_minus = {}, rz_significant = {''s1''}\<rparr> \<and>
   score (mk_hit ''s1'' ''Twister-P5'' ''+'' 50 1) > 48 \<and>
   strand (mk_hit ''s1'' ''Twister-P5'' ''+'' 50 1) = ''+'' \<and>
   seq_id (mk_hit ''s1'' ''Twister-P5'' ''+'' 50 1) \<in>
     rz_plus \<lparr>rz_plus = {''s1''}, rz_minus = {}, rz_significant = {''s1''}\<rparr> \<and>
   seq_id (mk_hit ''s1'' ''Twister-P5'' ''+'' 50 1) \<in>
     rz_significant \<lparr>rz_plus = {''s1''}, rz_minus = {}, rz_significant = {''s1''}\<rparr>"
proof -
  let ?p = "mk_params True TC False (1 / 100)"
  let ?c = "\<lparr>ga = 45, tc = 48, nc = 30\<rparr>"
  let ?h = "mk_hit ''s1'' ''Twister-P5'' ''+'' 50 1"
  let ?rows = "[?h, mk_hit ''s2'' ''Twister-P5'' ''-'' 48 1, mk_hit ''s3'' ''Twister-P5'' ''+'' 46 1]"
  let ?ev = "\<lparr>rz_plus = {''s1''}, rz_minus = {}, rz_significant = {''s1''}\<rparr>"
  have 1: "use_cm_cutoff ?p" by (simp add: mk_params_def)
  have 2: "map_of [(''Twister-P5'', ?c)] ''Twister-P5'' = Some ?c" by simp
  have 3: "(48 :: real) = (case cm_cutoff_type ?p of GA \<Rightarrow> ga ?c | NC \<Rightarrow> nc ?c | TC \<Rightarrow> tc ?c)"
    by (simp add: mk_params_def)
  have 4: "?h \<in> set ?rows" by simp
  have 5: "score ?h > 48" by (simp add: mk_hit_def)
  have 6: "strand ?h = ''+''" by (simp add: mk_hit_def)
  have 7: "\<not> use_evalue_cutoff ?p" by (simp add: mk_params_def)
  from cutoff_hits_added [OF 1 2 3, of no_evidence ?rows] 7
  obtain ev' where gs: "group_step ?p [(''Twister-P5'', ?c)] no_evidence (''Twister-P5'', ?rows) = Inr ev'"
    and mem: "\<forall>h\<in>set ?rows. score h > 48 \<longrightarrow>
               (strand h = ''+'' \<longrightarrow> seq_id h \<in> rz_plus ev') \<and>
               (strand h = ''-'' \<longrightarrow> seq_id h \<in> rz_minus ev') \<and>
               seq_id h \<in> rz_significant ev'"
    and pl: "rz_plus ev' = rz_plus no_evidence \<union> query_seq_id (\<lambda>h. strand h = ''+'' \<and> score h > 48) ?rows"
    and mi: "rz_minus ev' = rz_minus no_evidence \<union> query_seq_id (\<lambda>h. strand h = ''-'' \<and> score h > 48) ?rows"
    and si: "rz_significant ev' = rz_significant no_evidence \<union> query_seq_id (\<lambda>h. score h > 48) ?rows"
    by blast
  have "ev' = ?ev"
    by (rule evidence.equality)
       (simp_all add: pl mi si no_evidence_def query_seq_id_def mk_hit_def del: set_filter)
  with gs mem 4 5 6
  have "group_step ?p [(''Twister-P5'', ?c)] no_evidence (''Twister-P5'', ?rows) = Inr ?ev"
    "seq_id ?h \<in> rz_plus ?ev" "seq_id ?h \<in> rz_significant ?ev"
    by blast+
  with 1 2 3 5 6 show ?thesis by blast
qed

text \<open>
  For a run whose loop over all groups completes, the same holds of the final sets.
\<close>

lemma cutoff_hits_in_run:
  assumes "use_cm_cutoff p"
    and "evidence_sets p cutoffs ribozymes = Inr ev"
    and "h \<in> set ribozymes"
    and "map_of cutoffs (ribozyme h) = Some c"
  shows "(score h > cutoff_of c (cm_cutoff_type p) \<longrightarrow>
            (strand h = ''+'' \<longrightarrow> seq_id h \<in> rz_plus ev) \<and>
            (strand h = ''-'' \<longrightarrow> seq_id h \<in> rz_minus ev) \<and>
            seq_id h \<in> rz_significant ev) \<and>
         (\<not> use_evalue_cutoff p \<longrightarrow>
            rz_plus ev = query_seq_id (\<lambda>h'. strand h' = ''+'' \<and> above_cutoff p cutoffs (ribozyme h') h') ribozymes \<and>
            rz_minus ev = query_seq_id (\<lambda>h'. strand h' = ''-'' \<and> above_cutoff p cutoffs (ribozyme h') h') ribozymes \<and>
            rz_significant ev = query_seq_id (\<lambda>h'. above_cutoff p cutoffs (ribozyme h') h') ribozymes)"
proof -
  from assms(4) have ne: "cutoffs \<noteq> []" by auto
  from assms(2) have ev: "ev = run_sets p cutoffs ribozymes"
    by (simp add: evidence_sets_Inr_iff)
  have 1: "(strand h = ''+'' \<longrightarrow> seq_id h \<in> rz_plus ev) \<and>
           (strand h = ''-'' \<longrightarrow> seq_id h \<in> rz_minus ev) \<and>
           seq_id h \<in> rz_significant ev"
    if "score h > cutoff_of c (cm_cutoff_type p)"
  proof -
    from that ne assms(1,4) have "above_cutoff p cutoffs (ribozyme h) h"
      by (simp add: above_cutoff_def)
    with assms(3) show ?thesis
      unfolding ev run_sets_def
      by (auto intro!: in_query_seq_id simp: strand_evidence_def significant_def)
  qed
  have 2: "rz_plus ev = query_seq_id (\<lambda>h'. strand h' = ''+'' \<and> above_cutoff p cutoffs (ribozyme h') h') ribozymes \<and>
           rz_minus ev = query_seq_id (\<lambda>h'. strand h' = ''-'' \<and> above_cutoff p cutoffs (ribozyme h') h') ribozymes \<and>
           rz_significant ev = query_seq_id (\<lambda>h'. above_cutoff p cutoffs (ribozyme h') h') ribozymes"
    if "\<not> use_evalue_cutoff p"
    using that by (simp add: ev run_sets_def strand_evidence_def significant_def)
  from 1 2 show ?thesis by blast
qed

subsection \<open>The e-value tests\<close>

text \<open>
  Claim C4, as the specification has it, ends: a hit whose e-value is above
  \<^verbatim>\<open>max_evalue\<close> and below its square root enters the strand set only, never
  \<^verbatim>\<open>rz_significant\<close>. With both filters on (the defaults of the command) such a hit is in
  \<^verbatim>\<open>rz_significant\<close> when its score is above the cutoff: here the e-value 0.05 lies between
  0.01 and 0.1, and the score 50 is above the cutoff 45.
\<close>

theorem evalue_hits_counterexample:
  "use_evalue_cutoff (mk_params True GA True (1 / 100)) \<and>
   max_evalue (mk_params True GA True (1 / 100)) < evalue (mk_hit ''s1'' ''A'' ''+'' 50 (1 / 20)) \<and>
   evalue (mk_hit ''s1'' ''A'' ''+'' 50 (1 / 20)) < sqrt (max_evalue (mk_params True GA True (1 / 100))) \<and>
   evidence_sets (mk_params True GA True (1 / 100)) [(''A'', \<lparr>ga = 45, tc = 45, nc = 30\<rparr>)]
     [mk_hit ''s1'' ''A'' ''+'' 50 (1 / 20)] =
     Inr \<lparr>rz_plus = {''s1''}, rz_minus = {}, rz_significant = {''s1''}\<rparr> \<and>
   seq_id (mk_hit ''s1'' ''A'' ''+'' 50 (1 / 20)) \<in>
     rz_significant \<lparr>rz_plus = {''s1''}, rz_minus = {}, rz_significant = {''s1''}\<rparr>"
  by (simp add: run_defs sqrt_hundredth del: set_filter)

text \<open>
  Claim C4, amended: with the e-value filter on and \<^verbatim>\<open>max_evalue\<close> positive, in a run whose
  loop completes, the sequence id of a hit is in the strand set of its strand when the
  e-value is below the square root of \<^verbatim>\<open>max_evalue\<close>, and in \<^verbatim>\<open>rz_significant\<close> when the
  e-value is below \<^verbatim>\<open>max_evalue\<close>. A sequence id is in \<^verbatim>\<open>rz_significant\<close> exactly when
  some hit of that sequence has an e-value below \<^verbatim>\<open>max_evalue\<close> or passes the cutoff
  test; so a hit between the two thresholds brings its id into the strand set only, and
  the id is significant only through the cutoff test or another hit of the sequence.
\<close>

theorem evalue_hits_added:
  assumes "use_evalue_cutoff p"
    and "0 < max_evalue p"
    and "evidence_sets p cutoffs ribozymes = Inr ev"
    and "h \<in> set ribozymes"
  shows "(evalue h < sqrt (max_evalue p) \<and> strand h = ''+'' \<longrightarrow> seq_id h \<in> rz_plus ev) \<and>
         (evalue h < sqrt (max_evalue p) \<and> strand h = ''-'' \<longrightarrow> seq_id h \<in> rz_minus ev) \<and>
         (evalue h < max_evalue p \<longrightarrow> seq_id h \<in> rz_significant ev) \<and>
         (seq_id h \<in> rz_significant ev \<longleftrightarrow>
            (\<exists>h'. h' \<in> set ribozymes \<and> seq_id h' = seq_id h \<and>
                  (evalue h' < max_evalue p \<or> above_cutoff p cutoffs (ribozyme h') h')))"
proof -
  from assms(3) have ev: "ev = run_sets p cutoffs ribozymes"
    by (simp add: evidence_sets_Inr_iff)
  have 1: "evalue h < sqrt (max_evalue p) \<and> strand h = ''+'' \<longrightarrow> seq_id h \<in> rz_plus ev"
    unfolding ev run_sets_def using assms(1,4)
    by (auto intro!: in_query_seq_id simp: strand_evidence_def)
  have 2: "evalue h < sqrt (max_evalue p) \<and> strand h = ''-'' \<longrightarrow> seq_id h \<in> rz_minus ev"
    unfolding ev run_sets_def using assms(1,4)
    by (auto intro!: in_query_seq_id simp: strand_evidence_def)
  have 3: "evalue h < max_evalue p \<longrightarrow> seq_id h \<in> rz_significant ev"
    unfolding ev run_sets_def using assms(1,4)
    by (auto intro!: in_query_seq_id simp: significant_def)
  have 4: "seq_id h \<in> rz_significant ev \<longleftrightarrow>
            (\<exists>h'. h' \<in> set ribozymes \<and> seq_id h' = seq_id h \<and>
                  (evalue h' < max_evalue p \<or> above_cutoff p cutoffs (ribozyme h') h'))"
    unfolding ev run_sets_def using assms(1)
    by (auto simp: query_seq_id_iff significant_def)
  from 1 2 3 4 show ?thesis by blast
qed

theorem evalue_hits_added_witness:
  "use_evalue_cutoff (mk_params False GA True (1 / 100)) \<and>
   0 < max_evalue (mk_params False GA True (1 / 100)) \<and>
   evidence_sets (mk_params False GA True (1 / 100)) []
     [mk_hit ''s1'' ''A'' ''+'' 10 (1 / 1000), mk_hit ''s2'' ''A'' ''-'' 10 (1 / 20)] =
     Inr \<lparr>rz_plus = {''s1''}, rz_minus = {''s2''}, rz_significant = {''s1''}\<rparr> \<and>
   evalue (mk_hit ''s2'' ''A'' ''-'' 10 (1 / 20)) < sqrt (max_evalue (mk_params False GA True (1 / 100))) \<and>
   strand (mk_hit ''s2'' ''A'' ''-'' 10 (1 / 20)) = ''-'' \<and>
   seq_id (mk_hit ''s2'' ''A'' ''-'' 10 (1 / 20)) \<in>
     rz_minus \<lparr>rz_plus = {''s1''}, rz_minus = {''s2''}, rz_significant = {''s1''}\<rparr> \<and>
   seq_id (mk_hit ''s2'' ''A'' ''-'' 10 (1 / 20)) \<notin>
     rz_significant \<lparr>rz_plus = {''s1''}, rz_minus = {''s2''}, rz_significant = {''s1''}\<rparr>"
proof -
  let ?p = "mk_params False GA True (1 / 100)"
  let ?h = "mk_hit ''s2'' ''A'' ''-'' 10 (1 / 20)"
  let ?hs = "[mk_hit ''s1'' ''A'' ''+'' 10 (1 / 1000), ?h]"
  let ?ev = "\<lparr>rz_plus = {''s1''}, rz_minus = {''s2''}, rz_significant = {''s1''}\<rparr>"
  have 1: "use_evalue_cutoff ?p" by (simp add: mk_params_def)
  have 2: "0 < max_evalue ?p" by (simp add: mk_params_def)
  have 3: "evidence_sets ?p [] ?hs = Inr ?ev"
    by (simp add: run_defs sqrt_hundredth del: set_filter)
  have 4: "?h \<in> set ?hs" by simp
  have 5: "evalue ?h < sqrt (max_evalue ?p)" by (simp add: mk_hit_def mk_params_def sqrt_hundredth)
  have 6: "strand ?h = ''-''" by (simp add: mk_hit_def)
  have 7: "\<not> (\<exists>h'. h' \<in> set ?hs \<and> seq_id h' = seq_id ?h \<and>
                 (evalue h' < max_evalue ?p \<or> above_cutoff ?p [] (ribozyme h') h'))"
    by (auto simp: mk_hit_def mk_params_def above_cutoff_def)
  from evalue_hits_added [OF 1 2 3 4] 5 6 7
  have "seq_id ?h \<in> rz_minus ?ev" "seq_id ?h \<notin> rz_significant ?ev" by blast+
  with 1 2 3 5 6 show ?thesis by blast
qed

subsection \<open>The derived sets\<close>

text \<open>
  Claim C5: for all evidence sets, and so in every run, the ids with two ribozymes are
  the intersection of \<^verbatim>\<open>rz_plus\<close> and \<^verbatim>\<open>rz_minus\<close>, the ids with one are
  \<^verbatim>\<open>rz_significant\<close> without those, the viroid-like ids are the union of the two, and no id
  is both single and double.
\<close>

theorem derived_sets:
  "double_rz_ids ev = rz_plus ev \<inter> rz_minus ev \<and>
   single_rz_ids ev = rz_significant ev - double_rz_ids ev \<and>
   ribozy_likes_ids ev = double_rz_ids ev \<union> single_rz_ids ev \<and>
   single_rz_ids ev \<inter> double_rz_ids ev = {}"
  by (auto simp: double_rz_ids_def single_rz_ids_def ribozy_likes_ids_def)

text \<open>
  The three returned frames hold the rows of exactly these ids, and the labels of the
  single and double frames are unambiguous.
\<close>

lemma returned_frames:
  assumes "classify p cutoffs ribozymes = Inr (Some r)"
  shows "\<exists>ev. evidence_sets p cutoffs ribozymes = Inr ev \<and>
           (\<lambda>row. seq_id (fst row)) ` set (single_rzs r) = single_rz_ids ev \<and>
           (\<lambda>row. seq_id (fst row)) ` set (double_rzs r) = double_rz_ids ev \<and>
           (\<lambda>row. seq_id (fst row)) ` set (ribozy_likes r) = ribozy_likes_ids ev \<and>
           (\<forall>row\<in>set (single_rzs r). snd row = Some ''(+)'') \<and>
           (\<forall>row\<in>set (double_rzs r). snd row = Some ''(+) and (-)'')"
proof -
  from assms obtain ev where ev: "evidence_sets p cutoffs ribozymes = Inr ev"
    and r: "r = \<lparr>single_rzs = rows_isin ev (single_rz_ids ev) ribozymes,
                 double_rzs = rows_isin ev (double_rz_ids ev) ribozymes,
                 ribozy_likes = rows_isin ev (ribozy_likes_ids ev) ribozymes\<rparr>"
    by (cases "evidence_sets p cutoffs ribozymes") (auto simp: classify_eq split: if_splits)
  from ev have "ev = run_sets p cutoffs ribozymes" by (simp add: evidence_sets_Inr_iff)
  with run_sets_subset [of p cutoffs ribozymes]
  have sub: "rz_plus ev \<subseteq> seq_id ` set ribozymes" "rz_significant ev \<subseteq> seq_id ` set ribozymes"
    by simp_all
  then have "single_rz_ids ev \<subseteq> seq_id ` set ribozymes" "double_rz_ids ev \<subseteq> seq_id ` set ribozymes"
    "ribozy_likes_ids ev \<subseteq> seq_id ` set ribozymes"
    by (auto simp: single_rz_ids_def double_rz_ids_def ribozy_likes_ids_def)
  then have "(\<lambda>row. seq_id (fst row)) ` set (single_rzs r) = single_rz_ids ev"
    "(\<lambda>row. seq_id (fst row)) ` set (double_rzs r) = double_rz_ids ev"
    "(\<lambda>row. seq_id (fst row)) ` set (ribozy_likes r) = ribozy_likes_ids ev"
    by (simp_all add: r ids_of_rows_isin)
  moreover have "\<forall>row\<in>set (single_rzs r). snd row = Some ''(+)''"
    by (auto simp: r rows_isin_def polarity_def)
  moreover have "\<forall>row\<in>set (double_rzs r). snd row = Some ''(+) and (-)''"
    by (auto simp: r rows_isin_def polarity_def single_rz_ids_def)
  ultimately show ?thesis using ev by blast
qed

subsection \<open>Monotonicity in the e-value threshold\<close>

text \<open>
  Claim C6: for fixed hits, table and other parameters, and thresholds \<open>0 < m1 \<le> m2\<close>,
  a run with \<^verbatim>\<open>max_evalue = m1\<close> whose loop completes is matched by one with
  \<^verbatim>\<open>max_evalue = m2\<close>, whose \<^verbatim>\<open>rz_significant\<close> and viroid-like ids include those of the
  first; lowering the threshold never makes either set larger.
\<close>

theorem max_evalue_monotone:
  assumes "0 < m1" and "m1 \<le> m2"
    and "evidence_sets (p\<lparr>max_evalue := m1\<rparr>) cutoffs ribozymes = Inr ev1"
  shows "\<exists>ev2. evidence_sets (p\<lparr>max_evalue := m2\<rparr>) cutoffs ribozymes = Inr ev2 \<and>
           rz_significant ev1 \<subseteq> rz_significant ev2 \<and>
           ribozy_likes_ids ev1 \<subseteq> ribozy_likes_ids ev2 \<and>
           card (rz_significant ev1) \<le> card (rz_significant ev2) \<and>
           card (ribozy_likes_ids ev1) \<le> card (ribozy_likes_ids ev2)"
proof -
  let ?p1 = "p\<lparr>max_evalue := m1\<rparr>" and ?p2 = "p\<lparr>max_evalue := m2\<rparr>"
  define ev2 where "ev2 = run_sets ?p2 cutoffs ribozymes"
  from assms(3) have ok: "\<forall>h\<in>set ribozymes. \<not> lookup_fails ?p1 cutoffs (ribozyme h)"
    and ev1: "ev1 = run_sets ?p1 cutoffs ribozymes"
    by (simp_all add: evidence_sets_Inr_iff)
  from ok have "\<forall>h\<in>set ribozymes. \<not> lookup_fails ?p2 cutoffs (ribozyme h)"
    by (simp add: lookup_fails_def)
  then have run2: "evidence_sets ?p2 cutoffs ribozymes = Inr ev2"
    by (simp add: evidence_sets_Inr_iff ev2_def)
  from assms(2) have sq: "sqrt m1 \<le> sqrt m2" by simp
  have above: "above_cutoff ?p1 cutoffs k h = above_cutoff ?p2 cutoffs k h" for k h
    by (simp add: above_cutoff_def split: option.splits)
  have sig: "significant ?p1 cutoffs k h \<Longrightarrow> significant ?p2 cutoffs k h" for k h
    using assms(2) by (auto simp: significant_def above)
  have str: "strand_evidence ?p1 cutoffs k h \<Longrightarrow> strand_evidence ?p2 cutoffs k h" for k h
    by (auto simp: strand_evidence_def above intro: order_less_le_trans [OF _ sq])
  have s: "rz_significant ev1 \<subseteq> rz_significant ev2"
    unfolding ev1 ev2_def run_sets_def by (auto intro!: query_seq_id_mono sig)
  have pl: "rz_plus ev1 \<subseteq> rz_plus ev2"
    unfolding ev1 ev2_def run_sets_def by (auto intro!: query_seq_id_mono str)
  have mi: "rz_minus ev1 \<subseteq> rz_minus ev2"
    unfolding ev1 ev2_def run_sets_def by (auto intro!: query_seq_id_mono str)
  from s pl mi have v: "ribozy_likes_ids ev1 \<subseteq> ribozy_likes_ids ev2"
    unfolding ribozy_likes_ids_eq by blast
  have fin: "finite (rz_significant ev2)" "finite (ribozy_likes_ids ev2)"
    unfolding ribozy_likes_ids_eq by (simp_all add: ev2_def run_sets_def)
  from s v fin have "card (rz_significant ev1) \<le> card (rz_significant ev2)"
    "card (ribozy_likes_ids ev1) \<le> card (ribozy_likes_ids ev2)"
    by (simp_all add: card_mono)
  with run2 s v show ?thesis by blast
qed

theorem max_evalue_monotone_witness:
  "(0 :: real) < 1 / 100 \<and> (1 / 100 :: real) \<le> 1 / 4 \<and>
   evidence_sets (mk_params False GA True 1\<lparr>max_evalue := 1 / 100\<rparr>) []
     [mk_hit ''s1'' ''A'' ''+'' 10 (1 / 10)] = Inr no_evidence \<and>
   evidence_sets (mk_params False GA True 1\<lparr>max_evalue := 1 / 4\<rparr>) []
     [mk_hit ''s1'' ''A'' ''+'' 10 (1 / 10)] =
     Inr \<lparr>rz_plus = {''s1''}, rz_minus = {}, rz_significant = {''s1''}\<rparr> \<and>
   rz_significant no_evidence \<subseteq>
     rz_significant \<lparr>rz_plus = {''s1''}, rz_minus = {}, rz_significant = {''s1''}\<rparr> \<and>
   ribozy_likes_ids no_evidence \<subseteq>
     ribozy_likes_ids \<lparr>rz_plus = {''s1''}, rz_minus = {}, rz_significant = {''s1''}\<rparr> \<and>
   card (ribozy_likes_ids no_evidence) \<le>
     card (ribozy_likes_ids \<lparr>rz_plus = {''s1''}, rz_minus = {}, rz_significant = {''s1''}\<rparr>)"
proof -
  let ?p = "mk_params False GA True 1"
  let ?hs = "[mk_hit ''s1'' ''A'' ''+'' 10 (1 / 10)]"
  let ?ev = "\<lparr>rz_plus = {''s1''}, rz_minus = {}, rz_significant = {''s1''}\<rparr>"
  have 1: "(0 :: real) < 1 / 100" by simp
  have 2: "(1 / 100 :: real) \<le> 1 / 4" by simp
  have 3: "evidence_sets (?p\<lparr>max_evalue := 1 / 100\<rparr>) [] ?hs = Inr no_evidence"
    by (simp add: run_defs sqrt_hundredth del: set_filter)
  have 4: "evidence_sets (?p\<lparr>max_evalue := 1 / 4\<rparr>) [] ?hs = Inr ?ev"
    by (simp add: run_defs sqrt_quarter del: set_filter)
  from max_evalue_monotone [OF 1 2 3] 4
  have "rz_significant no_evidence \<subseteq> rz_significant ?ev"
    "ribozy_likes_ids no_evidence \<subseteq> ribozy_likes_ids ?ev"
    "card (ribozy_likes_ids no_evidence) \<le> card (ribozy_likes_ids ?ev)"
    by auto
  with 1 2 3 4 show ?thesis by blast
qed

subsection \<open>A file of one block\<close>

text \<open>
  Claim C7: a file made of sentinel lines (possibly none) followed by one block, that is
  well-formed lines without a sentinel among which there is a \<^verbatim>\<open>NAME\<close> line, and with no
  sentinel after the block, gives a table with exactly one entry: the block's name, with
  the \<^verbatim>\<open>GA\<close>, \<^verbatim>\<open>TC\<close> and \<^verbatim>\<open>NC\<close> values read from the block's lines and 0.0 for each
  kind of line the block lacks.
\<close>

theorem single_block_flushed:
  assumes "\<forall>l\<in>set hdr. contains ''INFERNAL'' l"
    and "\<forall>l\<in>set block. \<not> contains ''INFERNAL'' l"
    and "\<forall>l\<in>set block. well_formed to_float l"
    and "l \<in> set block" and "startswith l ''NAME''"
  shows "parse_cm_file to_float (hdr @ block) =
           Inr [(block_name block,
                 \<lparr>ga = block_value to_float ''GA'' block,
                  tc = block_value to_float ''TC'' block,
                  nc = block_value to_float ''NC'' block\<rparr>)] \<and>
         block_name block \<noteq> []"
proof -
  from parse_lines_returns [OF assms(3)] obtain st'
    where st': "parse_lines to_float initial_state block = Inr st'" by blast
  from parse_lines_block [OF assms(2) st'] have eq: "st' = state_after to_float initial_state block" .
  from assms(4,5) have ne: "filter (\<lambda>l. startswith l ''NAME'') block \<noteq> []"
    by (auto simp: filter_empty_conv)
  have "parse_lines to_float initial_state (hdr @ block) = Inr st'"
    by (simp add: parse_lines_append parse_lines_sentinels [OF assms(1)] st')
  then have "parse_cm_file to_float (hdr @ block) =
      Inr (dict_set (last_name st') (last_cutoff st') (cutoffs_dict st'))"
    by (simp add: parse_cm_file_def)
  also have "dict_set (last_name st') (last_cutoff st') (cutoffs_dict st') =
      [(block_name block,
                 \<lparr>ga = block_value to_float ''GA'' block,
                  tc = block_value to_float ''TC'' block,
                  nc = block_value to_float ''NC'' block\<rparr>)]"
    using ne
    by (simp add: eq state_after_def initial_state_def name_after_def value_after_def
        block_value_def zero_cutoff_def)
  finally show ?thesis
    using block_name_nonempty [OF assms(4,5,2,3)] by simp
qed

theorem single_block_flushed_witness:
  "list_all (contains ''INFERNAL'') [''INFERNAL1/a [1.1.4 | Dec 2020]''] \<and>
   list_all (\<lambda>l. \<not> contains ''INFERNAL'' l \<and> well_formed decimal_float l)
     [''NAME     Twister-P5'', ''ACC      RF02684'', ''GA       45.00'', ''TC       45.30''] \<and>
   startswith ''NAME     Twister-P5'' ''NAME'' \<and>
   parse_cm_file decimal_float
     ([''INFERNAL1/a [1.1.4 | Dec 2020]''] @
      [''NAME     Twister-P5'', ''ACC      RF02684'', ''GA       45.00'', ''TC       45.30'']) =
     Inr [(''Twister-P5'', \<lparr>ga = 45, tc = 453 / 10, nc = 0\<rparr>)]"
proof -
  let ?hdr = "[''INFERNAL1/a [1.1.4 | Dec 2020]'']"
  let ?block = "[''NAME     Twister-P5'', ''ACC      RF02684'', ''GA       45.00'', ''TC       45.30'']"
  have a: "list_all (contains ''INFERNAL'') ?hdr" by code_simp
  have b: "list_all (\<lambda>l. \<not> contains ''INFERNAL'' l \<and> well_formed decimal_float l) ?block"
    by code_simp
  have c: "startswith ''NAME     Twister-P5'' ''NAME''" by code_simp
  from a have 1: "\<forall>l\<in>set ?hdr. contains ''INFERNAL'' l" by (simp only: list_all_iff)
  from b have 2: "\<forall>l\<in>set ?block. \<not> contains ''INFERNAL'' l"
    and 3: "\<forall>l\<in>set ?block. well_formed decimal_float l"
    by (simp_all only: list_all_iff) blast+
  have 4: "''NAME     Twister-P5'' \<in> set ?block" by simp
  have n: "block_name ?block = ''Twister-P5''" by code_simp
  have g: "block_value decimal_float ''GA'' ?block = 45" by code_simp
  have t: "block_value decimal_float ''TC'' ?block = 453 / 10" by code_simp
  have m: "block_value decimal_float ''NC'' ?block = 0" by code_simp
  from single_block_flushed [OF 1 2 3 4 c]
  have "parse_cm_file decimal_float (?hdr @ ?block) =
          Inr [(''Twister-P5'', \<lparr>ga = 45, tc = 453 / 10, nc = 0\<rparr>)]"
    by (simp only: n g t m)
  with a b c show ?thesis by blast
qed

subsection \<open>Independence of the order of the groups\<close>

text \<open>
  Claim C8: let the groups of a frame be arranged, in any order, into any number of
  parts. The loop over the groups in their own order yields given evidence sets exactly
  when every part, processed by itself from empty sets, yields partial sets whose union
  they are; and the run over the rearranged groups returns a given result exactly when the
  run over the groups in their own order does.
\<close>

theorem groups_order_independent:
  assumes "mset (concat parts) = mset (groupby_ribozyme ribozymes)"
  shows "(evidence_sets p cutoffs ribozymes = Inr ev \<longleftrightarrow>
            (\<exists>evs. map (scan_groups p cutoffs no_evidence) parts = map Inr evs \<and>
                   ev = merge_all evs)) \<and>
         (analyse p cutoffs ribozymes (concat parts) = Inr r \<longleftrightarrow>
            analyse p cutoffs ribozymes (groupby_ribozyme ribozymes) = Inr r)"
proof -
  from assms have sets: "set (concat parts) = set (groupby_ribozyme ribozymes)"
    by (rule mset_eq_setD)
  have "evidence_sets p cutoffs ribozymes = Inr ev \<longleftrightarrow>
        scan_groups p cutoffs no_evidence (concat parts) = Inr ev"
    unfolding evidence_sets_def using scan_groups_cong_set [OF sets] by simp
  also have "\<dots> \<longleftrightarrow> (\<exists>evs. map (scan_groups p cutoffs no_evidence) parts = map Inr evs \<and>
                   ev = merge_all evs)"
    unfolding scan_parts by (simp add: scan_groups_Inr_iff)
  finally have 1: "evidence_sets p cutoffs ribozymes = Inr ev \<longleftrightarrow>
            (\<exists>evs. map (scan_groups p cutoffs no_evidence) parts = map Inr evs \<and>
                   ev = merge_all evs)" .
  have 2: "analyse p cutoffs ribozymes (concat parts) = Inr r \<longleftrightarrow>
            analyse p cutoffs ribozymes (groupby_ribozyme ribozymes) = Inr r"
    unfolding analyse_Inr_iff using scan_groups_cong_set [OF sets] by simp
  from 1 2 show ?thesis ..
qed

theorem groups_order_independent_witness:
  "mset (concat [[(''B'', [mk_hit ''s2'' ''B'' ''-'' 50 1])], [(''A'', [mk_hit ''s1'' ''A'' ''+'' 50 1])]]) =
     mset (groupby_ribozyme [mk_hit ''s2'' ''B'' ''-'' 50 1, mk_hit ''s1'' ''A'' ''+'' 50 1]) \<and>
   map (scan_groups (mk_params True GA False (1 / 100))
          [(''A'', \<lparr>ga = 45, tc = 45, nc = 30\<rparr>), (''B'', \<lparr>ga = 45, tc = 45, nc = 30\<rparr>)] no_evidence)
       [[(''B'', [mk_hit ''s2'' ''B'' ''-'' 50 1])], [(''A'', [mk_hit ''s1'' ''A'' ''+'' 50 1])]] =
     map Inr [\<lparr>rz_plus = {}, rz_minus = {''s2''}, rz_significant = {''s2''}\<rparr>,
              \<lparr>rz_plus = {''s1''}, rz_minus = {}, rz_significant = {''s1''}\<rparr>] \<and>
   evidence_sets (mk_params True GA False (1 / 100))
       [(''A'', \<lparr>ga = 45, tc = 45, nc = 30\<rparr>), (''B'', \<lparr>ga = 45, tc = 45, nc = 30\<rparr>)]
       [mk_hit ''s2'' ''B'' ''-'' 50 1, mk_hit ''s1'' ''A'' ''+'' 50 1] =
     Inr (merge_all [\<lparr>rz_plus = {}, rz_minus = {''s2''}, rz_significant = {''s2''}\<rparr>,
                     \<lparr>rz_plus = {''s1''}, rz_minus = {}, rz_significant = {''s1''}\<rparr>])"
proof -
  let ?p = "mk_params True GA False (1 / 100)"
  let ?c = "[(''A'', \<lparr>ga = 45, tc = 45, nc = 30\<rparr>), (''B'', \<lparr>ga = 45, tc = 45, nc = 30\<rparr>)]"
  let ?hA = "mk_hit ''s1'' ''A'' ''+'' 50 1" and ?hB = "mk_hit ''s2'' ''B'' ''-'' 50 1"
  let ?parts = "[[(''B'', [?hB])], [(''A'', [?hA])]]"
  let ?evs = "[\<lparr>rz_plus = {}, rz_minus = {''s2''}, rz_significant = {''s2''}\<rparr>,
               \<lparr>rz_plus = {''s1''}, rz_minus = {}, rz_significant = {''s1''}\<rparr>]"
  have 1: "mset (concat ?parts) = mset (groupby_ribozyme [?hB, ?hA])"
    by (simp add: groups_two_rev)
  have 2: "map (scan_groups ?p ?c no_evidence) ?parts = map Inr ?evs"
    by (simp add: group_step_def cutoff_update_def evalue_update_def no_evidence_def
          query_seq_id_def mk_params_def mk_hit_def del: set_filter)
  from groups_order_independent [OF 1, of ?p ?c "merge_all ?evs"] 2
  have "evidence_sets ?p ?c [?hB, ?hA] = Inr (merge_all ?evs)" by blast
  with 1 2 show ?thesis by blast
qed

subsection \<open>No filter in use\<close>

text \<open>
  Claim C9: for a non-empty frame of hits, when the cutoff filter is off or the table is
  empty, and the e-value filter is off, the three evidence sets stay empty and the run
  returns \<^verbatim>\<open>None\<close>, whatever the scores, e-values and strands are.
\<close>

theorem no_filter_no_evidence:
  assumes "ribozymes \<noteq> []"
    and "\<not> use_cm_cutoff p \<or> cutoffs = []"
    and "\<not> use_evalue_cutoff p"
  shows "evidence_sets p cutoffs ribozymes = Inr no_evidence \<and>
         classify p cutoffs ribozymes = Inr None"
proof -
  from assms(2) have "\<forall>h\<in>set ribozymes. \<not> lookup_fails p cutoffs (ribozyme h)"
    by (auto simp: lookup_fails_def)
  with run_sets_off [OF assms(2,3)] have ev: "evidence_sets p cutoffs ribozymes = Inr no_evidence"
    by (simp add: evidence_sets_Inr_iff)
  have "ribozy_likes_ids no_evidence = {}"
    by (simp add: ribozy_likes_ids_def double_rz_ids_def single_rz_ids_def no_evidence_def)
  with ev show ?thesis by (simp add: classify_eq)
qed

theorem no_filter_no_evidence_witness:
  "[mk_hit ''s1'' ''A'' ''+'' 50 0] \<noteq> [] \<and>
   use_cm_cutoff (mk_params True GA False (1 / 100)) \<and> ([] :: cutoff_table) = [] \<and>
   \<not> use_evalue_cutoff (mk_params True GA False (1 / 100)) \<and>
   evidence_sets (mk_params True GA False (1 / 100)) [] [mk_hit ''s1'' ''A'' ''+'' 50 0] = Inr no_evidence \<and>
   classify (mk_params True GA False (1 / 100)) [] [mk_hit ''s1'' ''A'' ''+'' 50 0] = Inr None"
  using no_filter_no_evidence [of "[mk_hit ''s1'' ''A'' ''+'' 50 0]" "mk_params True GA False (1 / 100)" "[]"]
  by (simp add: mk_params_def)

subsection \<open>The store at the end of the input\<close>

text \<open>
  Claim C10, as the specification has it: an input without \<^verbatim>\<open>NAME\<close> line after its last
  sentinel gives an entry under the empty string whose three cutoffs are all 0.0. The
  cutoff lines after the last sentinel are stored with it: the one-line file \<^verbatim>\<open>GA 5.0\<close>
  gives the entry with \<^verbatim>\<open>GA\<close> 5.0.
\<close>

theorem unnamed_tail_counterexample:
  "parse_cm_file decimal_float [''GA 5.0''] = Inr [([], \<lparr>ga = 5, tc = 0, nc = 0\<rparr>)]"
  by code_simp

text \<open>
  Claim C10, amended: for a well-formed input that is empty or ends in a sentinel,
  followed by lines without sentinel and without \<^verbatim>\<open>NAME\<close> line, the parser returns a
  table with an entry under the empty string, whose \<^verbatim>\<open>GA\<close>, \<^verbatim>\<open>TC\<close> and \<^verbatim>\<open>NC\<close> are the
  values of the last such lines after the last sentinel, 0.0 for each kind that is
  absent there (so all three are 0.0 for the empty file): the store at the end of the
  input has no guard.
\<close>

theorem unnamed_tail_flushed:
  assumes "pre = [] \<or> contains ''INFERNAL'' (last pre)"
    and "\<forall>l\<in>set post. \<not> contains ''INFERNAL'' l \<and> \<not> startswith l ''NAME''"
    and "\<forall>l\<in>set (pre @ post). well_formed to_float l"
  shows "\<exists>tbl. parse_cm_file to_float (pre @ post) = Inr tbl \<and>
           map_of tbl [] = Some \<lparr>ga = block_value to_float ''GA'' post,
                                 tc = block_value to_float ''TC'' post,
                                 nc = block_value to_float ''NC'' post\<rparr>"
proof -
  from assms(3) have wf: "\<forall>l\<in>set pre. well_formed to_float l" "\<forall>l\<in>set post. well_formed to_float l"
    by auto
  from parse_lines_returns [OF wf(1)] obtain st1
    where st1: "parse_lines to_float initial_state pre = Inr st1" by blast
  from parse_lines_returns [OF wf(2)] obtain st2
    where st2: "parse_lines to_float st1 post = Inr st2" by blast
  from parse_lines_ends_in_sentinel [OF st1 assms(1)]
  have fresh: "last_name st1 = []" "last_cutoff st1 = zero_cutoff" by simp_all
  from assms(2) have nosent: "\<forall>l\<in>set post. \<not> contains ''INFERNAL'' l" by blast
  from assms(2) have noname: "filter (\<lambda>l. startswith l ''NAME'') post = []"
    by (auto simp: filter_empty_conv)
  from parse_lines_block [OF nosent st2] have eq: "st2 = state_after to_float st1 post" .
  have name: "last_name st2 = []"
    by (simp add: eq state_after_def name_after_def noname fresh)
  have cut: "last_cutoff st2 = \<lparr>ga = block_value to_float ''GA'' post,
                                 tc = block_value to_float ''TC'' post,
                                 nc = block_value to_float ''NC'' post\<rparr>"
    by (simp add: eq state_after_def value_after_def fresh zero_cutoff_def block_value_def)
  have "parse_cm_file to_float (pre @ post) =
      Inr (dict_set (last_name st2) (last_cutoff st2) (cutoffs_dict st2))"
    by (simp add: parse_cm_file_def parse_lines_append st1 st2)
  then show ?thesis
    by (simp add: name cut map_of_dict_set)
qed

theorem unnamed_tail_flushed_witness:
  "contains ''INFERNAL'' (last [''INFERNAL1/a'', ''NAME x'', ''GA 45.0'', ''INFERNAL1/a'']) \<and>
   list_all (\<lambda>l. \<not> contains ''INFERNAL'' l \<and> \<not> startswith l ''NAME'') [''TC 3.5''] \<and>
   list_all (well_formed decimal_float)
     ([''INFERNAL1/a'', ''NAME x'', ''GA 45.0'', ''INFERNAL1/a''] @ [''TC 3.5'']) \<and>
   (\<exists>tbl. parse_cm_file decimal_float
            ([''INFERNAL1/a'', ''NAME x'', ''GA 45.0'', ''INFERNAL1/a''] @ [''TC 3.5'']) = Inr tbl \<and>
          map_of tbl [] = Some \<lparr>ga = 0, tc = 7 / 2, nc = 0\<rparr>)"
proof -
  let ?pre = "[''INFERNAL1/a'', ''NAME x'', ''GA 45.0'', ''INFERNAL1/a'']"
  let ?post = "[''TC 3.5'']"
  have a: "contains ''INFERNAL'' (last ?pre)" by code_simp
  have b: "list_all (\<lambda>l. \<not> contains ''INFERNAL'' l \<and> \<not> startswith l ''NAME'') ?post" by code_simp
  have c: "list_all (well_formed decimal_float) (?pre @ ?post)" by code_simp
  from a have 1: "?pre = [] \<or> contains ''INFERNAL'' (last ?pre)" by blast
  from b have 2: "\<forall>l\<in>set ?post. \<not> contains ''INFERNAL'' l \<and> \<not> startswith l ''NAME''"
    by (simp only: list_all_iff)
  from c have 3: "\<forall>l\<in>set (?pre @ ?post). well_formed decimal_float l"
    by (simp only: list_all_iff)
  have g: "block_value decimal_float ''GA'' ?post = 0" by code_simp
  have t: "block_value decimal_float ''TC'' ?post = 7 / 2" by code_simp
  have m: "block_value decimal_float ''NC'' ?post = 0" by code_simp
  from unnamed_tail_flushed [OF 1 2 3]
  have "\<exists>tbl. parse_cm_file decimal_float (?pre @ ?post) = Inr tbl \<and>
          map_of tbl [] = Some \<lparr>ga = 0, tc = 7 / 2, nc = 0\<rparr>"
    by (simp only: g t m)
  with a b c show ?thesis by blast
qed

end
